theory Spec2Isabelle
  imports Complex_Main "HOL-Library.Multiset" "HOL-Library.AList" "HOL-Library.Word"
    "HOL-Library.Char_ord" "HOL-Library.List_Lexorder"
begin

section \<open>Data model\<close>

text \<open>
  The module \<^verbatim>\<open>medio/backends/pdcm_io.py\<close> reads and writes DICOM files through
  pydicom, numpy and dicom_numpy. Paths are strings, a file's raw content is never looked
  at by the module itself, and every exception is a value of \<open>error\<close>.
\<close>

type_synonym path = string
type_synonym byte = "8 word"
type_synonym dtype = string

text \<open>
  The keywords the module names are constructors of \<open>tag\<close>; every other tag of a
  dataset is an \<open>OtherTag\<close> with pydicom's integer tag.
\<close>

datatype tag =
    InstanceNumber
  | SamplesPerPixel
  | RescaleSlope
  | RescaleIntercept
  | PixelData
  | ImagePositionPatient
  | OtherTag nat

text \<open>
  pydicom decodes an element by its value representation: integer strings and unsigned
  shorts to Python ints, pixel data to bytes, a decimal string of several values to a
  list of numbers; an element of a numeric representation whose value is empty decodes to
  \<^verbatim>\<open>None\<close>. Every other value is kept as a Python string.
\<close>

datatype elem = IntV int | NoneV | BytesV "byte list" | TextV string | FloatsV "real list"

text \<open>
  A pydicom dataset is a dict from tag to element. Python dicts keep insertion order, so
  the dataset is an association list; \<open>AList.update\<close> and \<open>AList.delete\<close> are
  the dict's item assignment and deletion.
\<close>

type_synonym dataset = "(tag \<times> elem) list"

datatype DatasetKind = SingleFrame | MultiFrame

datatype error =
    FileNotFoundError string
  | AttributeError tag
  | TypeError
  | IndexError
  | AxisError int nat
  | OverflowError
  | LibraryError string

text \<open>
  A numpy array is a view on a buffer: per axis its length and its stride (in items), the
  offset of element \<open>(0, \<dots>, 0)\<close> and the buffer itself.
\<close>

record 'a ndarray =
  axes :: "(nat \<times> int) list"
  offset :: int
  buffer :: "'a list"

type_synonym affine = "real list list"

text \<open>
  Modelled from the spec: the class \<^verbatim>\<open>MetaData\<close> lives in \<^verbatim>\<open>medio.metadata.metadata\<close>,
  outside this module. The spec describes it as the value object
  \<open>{affine, coord_sys, header: optional mapping}\<close>; the header is absent after
  construction.
\<close>

record MetaData =
  affine :: affine
  coord_sys :: string
  header :: "(string \<times> elem) list option"

text \<open>
  The collaborators of the module: the file system (\<^verbatim>\<open>Path.is_dir\<close>, \<^verbatim>\<open>Path.glob\<close>,
  whose result is in the order the file system enumerates), pydicom (\<^verbatim>\<open>dcmread\<close>,
  \<^verbatim>\<open>str\<close> of a tag, the dtype of \<^verbatim>\<open>pixel_array\<close>), dicom_numpy
  (\<^verbatim>\<open>combine_slices\<close>), numpy (the dtype of an array, the conversion of an array to
  another dtype into newly allocated memory, the bytes of one item) and the
  parts of medio outside this module (\<^verbatim>\<open>unpack_dataset\<close>, the class test behind
  \<^verbatim>\<open>convert_ds\<close>, \<^verbatim>\<open>del_intensity_trans\<close>). Each is a parameter; a call that raises
  returns \<open>Inl\<close>.
\<close>

record 'a collaborators =
  is_dir :: "path \<Rightarrow> bool"
  glob :: "path \<Rightarrow> string \<Rightarrow> path list"
  dcmread :: "path \<Rightarrow> error + dataset"
  classify :: "dataset \<Rightarrow> DatasetKind"
  unpack_dataset :: "dataset \<Rightarrow> bool \<Rightarrow> error + ('a ndarray \<times> affine)"
  combine_slices :: "dataset list \<Rightarrow> error + ('a ndarray \<times> affine)"
  del_intensity_trans :: "dataset \<Rightarrow> error + dataset"
  pixel_array_dtype :: "dataset \<Rightarrow> error + dtype"
  array_dtype :: "'a ndarray \<Rightarrow> dtype"
  astype_copy :: "'a ndarray \<Rightarrow> dtype \<Rightarrow> error + 'a ndarray"
  item_bytes :: "'a \<Rightarrow> byte list"
  str_tag :: "tag \<Rightarrow> string"

section \<open>numpy: indexing and \<^verbatim>\<open>moveaxis\<close>\<close>

definition ndim :: "'a ndarray \<Rightarrow> nat" where
  "ndim a = length (axes a)"

text \<open>The position in the buffer of the element at a multi-index.\<close>

definition position :: "'a ndarray \<Rightarrow> nat list \<Rightarrow> int" where
  "position a idx = offset a + (\<Sum>k\<leftarrow>[0..<ndim a]. int (idx ! k) * snd (axes a ! k))"

text \<open>
  \<^verbatim>\<open>a[idx]\<close> for a full tuple of non-negative indices: \<open>Inl IndexError\<close> when the tuple
  has the wrong length or an index is out of bounds.
\<close>

definition item :: "'a ndarray \<Rightarrow> nat list \<Rightarrow> error + 'a" where
  "item a idx =
     (if length idx = ndim a \<and> (\<forall>k\<in>set [0..<ndim a]. idx ! k < fst (axes a ! k))
         \<and> 0 \<le> position a idx \<and> position a idx < int (length (buffer a))
      then Inr (buffer a ! nat (position a idx))
      else Inl IndexError)"

text \<open>
  \<^verbatim>\<open>normalize_axis_index(axis, ndim)\<close> is a C function: it converts the axis to a C
  \<^verbatim>\<open>int\<close> and raises \<^verbatim>\<open>OverflowError\<close> for a Python int that does not fit. A negative
  axis counts from the end, an axis outside \<open>[-ndim, ndim)\<close> raises \<^verbatim>\<open>AxisError\<close>.
\<close>

definition fits_c_int :: "int \<Rightarrow> bool" where
  "fits_c_int axis \<longleftrightarrow> - (2 ^ 31) \<le> axis \<and> axis < 2 ^ 31"

definition normalize_axis_index :: "int \<Rightarrow> nat \<Rightarrow> error + nat" where
  "normalize_axis_index axis n =
     (if \<not> fits_c_int axis then Inl OverflowError
      else if - int n \<le> axis \<and> axis < int n
      then Inr (nat (if axis < 0 then axis + int n else axis))
      else Inl (AxisError axis n))"

text \<open>Python's \<^verbatim>\<open>list.insert(i, x)\<close> for \<open>0 \<le> i\<close>.\<close>

definition list_insert :: "'b list \<Rightarrow> nat \<Rightarrow> 'b \<Rightarrow> 'b list" where
  "list_insert xs i x = take i xs @ x # drop i xs"

text \<open>A list without its entry at position \<open>i\<close>, and a list whose entry at position
  \<open>src\<close> has moved to position \<open>dest\<close>, the other entries keeping their order.\<close>

definition list_pop :: "'b list \<Rightarrow> nat \<Rightarrow> 'b list" where
  "list_pop xs i = take i xs @ drop (Suc i) xs"

definition move_entry :: "'b list \<Rightarrow> nat \<Rightarrow> nat \<Rightarrow> 'b list" where
  "move_entry xs src dest = list_insert (list_pop xs src) dest (xs ! src)"

text \<open>\<^verbatim>\<open>a.transpose(order)\<close>: axis \<open>k\<close> of the result is axis \<open>order ! k\<close> of \<open>a\<close>.\<close>

definition transpose_axes :: "'a ndarray \<Rightarrow> nat list \<Rightarrow> 'a ndarray" where
  "transpose_axes a order = a\<lparr>axes := map (\<lambda>k. axes a ! k) order\<rparr>"

text \<open>
  \<^verbatim>\<open>np.moveaxis(a, source, destination)\<close> with one source and one destination, as numpy
  defines it:
  \<^verbatim>\<open>
  source = normalize_axis_tuple(source, a.ndim, 'source')
  destination = normalize_axis_tuple(destination, a.ndim, 'destination')
  order = [n for n in range(a.ndim) if n not in source]
  for dest, src in sorted(zip(destination, source)):
      order.insert(dest, src)
  return transpose(order)
  \<close>
\<close>

definition moveaxis_order :: "nat \<Rightarrow> nat \<Rightarrow> nat \<Rightarrow> nat list" where
  "moveaxis_order n src dest = list_insert (filter (\<lambda>k. k \<noteq> src) [0..<n]) dest src"

definition moveaxis :: "'a ndarray \<Rightarrow> int \<Rightarrow> int \<Rightarrow> error + 'a ndarray" where
  "moveaxis a source destination =
     (case normalize_axis_index source (ndim a) of
        Inl e \<Rightarrow> Inl e
      | Inr src \<Rightarrow>
          (case normalize_axis_index destination (ndim a) of
             Inl e \<Rightarrow> Inl e
           | Inr dest \<Rightarrow> Inr (transpose_axes a (moveaxis_order (ndim a) src dest))))"

subsection \<open>\<^verbatim>\<open>astype\<close> and \<^verbatim>\<open>tobytes\<close>\<close>

text \<open>
  \<^verbatim>\<open>a.astype(dtype, copy=False)\<close>: the input array itself when it already has the dtype,
  else the conversion into a new array.
\<close>

definition astype :: "'a collaborators \<Rightarrow> 'a ndarray \<Rightarrow> dtype \<Rightarrow> error + 'a ndarray" where
  "astype E a d = (if array_dtype E a = d then Inr a else astype_copy E a d)"

text \<open>The multi-indices of a shape in C order: the last index varies fastest.\<close>

fun c_indices :: "nat list \<Rightarrow> nat list list" where
  "c_indices [] = [[]]"
| "c_indices (n # ns) = concat (map (\<lambda>i. map ((#) i) (c_indices ns)) [0..<n])"

text \<open>
  \<^verbatim>\<open>a.tobytes()\<close>, with numpy's default \<^verbatim>\<open>order='C'\<close>: the bytes of the items of the
  array in C order of their indices, whatever the strides of the view.
\<close>

definition tobytes :: "'a collaborators \<Rightarrow> 'a ndarray \<Rightarrow> byte list" where
  "tobytes E a =
     concat (map (\<lambda>idx. case item a idx of Inr v \<Rightarrow> item_bytes E v | Inl _ \<Rightarrow> [])
                 (c_indices (map fst (axes a))))"





section \<open>The class \<^verbatim>\<open>PdcmIO\<close>\<close>

definition coord_sys_itk :: string where
  "coord_sys_itk = ''itk''"

definition DEFAULT_CHANNELS_AXIS :: int where
  "DEFAULT_CHANNELS_AXIS = 0"

definition aff2meta :: "affine \<Rightarrow> MetaData" where
  "aff2meta aff = \<lparr>affine = aff, coord_sys = coord_sys_itk, header = None\<rparr>"

definition move_channels_axis ::
  "'a ndarray \<Rightarrow> int \<Rightarrow> int \<Rightarrow> int option \<Rightarrow> error + 'a ndarray" where
  "move_channels_axis array samples_per_pixel source channels_axis =
     (case channels_axis of
        Some target \<Rightarrow>
          (if samples_per_pixel > 1 then moveaxis array source target else Inr array)
      | None \<Rightarrow> Inr array)"


text \<open>
  Every reading function returns the files it handed to \<^verbatim>\<open>pydicom.dcmread\<close>, in the
  order of the calls, together with its outcome.
\<close>

type_synonym 'r traced = "path list \<times> (error + 'r)"

text \<open>
  Modelled from the spec: \<^verbatim>\<open>convert_ds\<close> and \<^verbatim>\<open>MultiFrameFileDataset\<close> live in
  \<^verbatim>\<open>medio.metadata.pdcm_ds\<close>, outside this module. The spec
  describes the conversion as a classification of the parsed dataset by its content,
  pure and total; the entries of the dataset stay as parsed.
\<close>

definition convert_ds :: "'a collaborators \<Rightarrow> dataset \<Rightarrow> DatasetKind \<times> dataset" where
  "convert_ds E ds = (classify E ds, ds)"

text \<open>
  \<^verbatim>\<open>ds.SamplesPerPixel\<close>: pydicom raises \<^verbatim>\<open>AttributeError\<close> for a keyword the dataset
  does not hold; a value that is no number cannot be compared with \<open>1\<close>.
\<close>

definition samples_per_pixel_of :: "dataset \<Rightarrow> error + int" where
  "samples_per_pixel_of ds =
     (case map_of ds SamplesPerPixel of
        None \<Rightarrow> Inl (AttributeError SamplesPerPixel)
      | Some (IntV n) \<Rightarrow> Inr n
      | Some _ \<Rightarrow> Inl TypeError)"

text \<open>
  \<^verbatim>\<open>{str(key): ds[key] for key in ds.keys()}\<close>: a dict built entry by entry, a later
  entry replacing the value of an equal key.
\<close>

definition header_snapshot :: "'a collaborators \<Rightarrow> dataset \<Rightarrow> (string \<times> elem) list" where
  "header_snapshot E ds = foldl (\<lambda>h (k, v). AList.update (str_tag E k) v h) [] ds"

definition read_dcm_file ::
  "'a collaborators \<Rightarrow> path \<Rightarrow> bool \<Rightarrow> bool \<Rightarrow> int option \<Rightarrow> ('a ndarray \<times> MetaData) traced" where
  "read_dcm_file E filename hdr allow_default_affine channels_axis =
     ([filename],
      case dcmread E filename of
        Inl e \<Rightarrow> Inl e
      | Inr ds0 \<Rightarrow>
          (case convert_ds E ds0 of
             (kind, ds) \<Rightarrow>
               (case (if kind = MultiFrame then unpack_dataset E ds allow_default_affine
                      else combine_slices E [ds]) of
                  Inl e \<Rightarrow> Inl e
                | Inr (img, aff) \<Rightarrow>
                    (let metadata = aff2meta aff;
                         metadata = (if hdr then metadata\<lparr>header := Some (header_snapshot E ds)\<rparr>
                                     else metadata)
                     in case samples_per_pixel_of ds of
                          Inl e \<Rightarrow> Inl e
                        | Inr spp \<Rightarrow>
                            (case move_channels_axis img spp DEFAULT_CHANNELS_AXIS channels_axis of
                               Inl e \<Rightarrow> Inl e
                             | Inr img' \<Rightarrow> Inr (img', metadata))))))"

text \<open>
  \<^verbatim>\<open>[pydicom.dcmread(filename) for filename in files]\<close>: the files are parsed in the
  order of the list, and the first failure ends the comprehension.
\<close>

fun read_files :: "'a collaborators \<Rightarrow> path list \<Rightarrow> dataset list traced" where
  "read_files E [] = ([], Inr [])"
| "read_files E (f # fs) =
     (case dcmread E f of
        Inl e \<Rightarrow> ([f], Inl e)
      | Inr ds \<Rightarrow>
          (case read_files E fs of
             (tr, r) \<Rightarrow> (f # tr, case r of Inl e \<Rightarrow> Inl e | Inr dss \<Rightarrow> Inr (ds # dss))))"

text \<open>
  \<^verbatim>\<open>ds.get('InstanceNumber', 0)\<close>: the value stored under the tag, whatever it is, and
  the int \<open>0\<close> for a dataset without the tag.
\<close>

definition instance_number_key :: "dataset \<Rightarrow> elem" where
  "instance_number_key ds = (case map_of ds InstanceNumber of None \<Rightarrow> IntV 0 | Some v \<Rightarrow> v)"

text \<open>
  Python orders ints by value and strings and bytes lexicographically; \<^verbatim>\<open><\<close> between
  values of different types, and with \<^verbatim>\<open>None\<close> or a list of numbers on either side, raises
  \<^verbatim>\<open>TypeError\<close>.
\<close>

definition is_int :: "elem \<Rightarrow> bool" where
  "is_int v = (case v of IntV _ \<Rightarrow> True | _ \<Rightarrow> False)"

definition is_text :: "elem \<Rightarrow> bool" where
  "is_text v = (case v of TextV _ \<Rightarrow> True | _ \<Rightarrow> False)"

definition is_bytes :: "elem \<Rightarrow> bool" where
  "is_bytes v = (case v of BytesV _ \<Rightarrow> True | _ \<Rightarrow> False)"

definition py_int :: "elem \<Rightarrow> int" where
  "py_int v = (case v of IntV n \<Rightarrow> n | _ \<Rightarrow> 0)"

definition py_text :: "elem \<Rightarrow> string" where
  "py_text v = (case v of TextV s \<Rightarrow> s | _ \<Rightarrow> [])"

definition py_bytes :: "elem \<Rightarrow> byte list" where
  "py_bytes v = (case v of BytesV b \<Rightarrow> b | _ \<Rightarrow> [])"

text \<open>
  \<^verbatim>\<open>slices.sort(key=...)\<close>: Python's sort is ascending and stable, as \<open>sort_key\<close>
  (insertion sort from the right) is. A list of fewer than two items is returned without
  a comparison. With two or more items every key is compared with another one, so the
  sort raises \<^verbatim>\<open>TypeError\<close> unless the keys are all ints, all strings or all bytes.
\<close>

definition int_key :: "dataset \<Rightarrow> int" where
  "int_key ds = py_int (instance_number_key ds)"

definition text_key :: "dataset \<Rightarrow> string" where
  "text_key ds = py_text (instance_number_key ds)"

definition bytes_key :: "dataset \<Rightarrow> byte list" where
  "bytes_key ds = py_bytes (instance_number_key ds)"

definition sort_slices :: "dataset list \<Rightarrow> error + dataset list" where
  "sort_slices slices =
     (let keys = map instance_number_key slices
      in if length slices < 2 then Inr slices
         else if list_all is_int keys then Inr (sort_key int_key slices)
         else if list_all is_text keys then Inr (sort_key text_key slices)
         else if list_all is_bytes keys then Inr (sort_key bytes_key slices)
         else Inl TypeError)"

text \<open>Lines 60 to 63 of the module: what \<^verbatim>\<open>read_dcm_dir\<close> does with the sorted slices.\<close>

definition combine_sorted ::
  "'a collaborators \<Rightarrow> int option \<Rightarrow> dataset list \<Rightarrow> error + ('a ndarray \<times> MetaData)" where
  "combine_sorted E channels_axis slices =
     (case combine_slices E slices of
        Inl e \<Rightarrow> Inl e
      | Inr (img, aff) \<Rightarrow>
          (let metadata = aff2meta aff
           in case slices of
                [] \<Rightarrow> Inl IndexError
              | first # _ \<Rightarrow>
                  (case samples_per_pixel_of first of
                     Inl e \<Rightarrow> Inl e
                   | Inr spp \<Rightarrow>
                       (case move_channels_axis img spp DEFAULT_CHANNELS_AXIS channels_axis of
                          Inl e \<Rightarrow> Inl e
                        | Inr img' \<Rightarrow> Inr (img', metadata)))))"

definition empty_directory_message :: "path \<Rightarrow> string" where
  "empty_directory_message input_dir =
     ''Received an empty directory: '' @ [CHR 0x22] @ input_dir @ [CHR 0x22]"

definition read_dcm_dir ::
  "'a collaborators \<Rightarrow> path \<Rightarrow> string \<Rightarrow> int option \<Rightarrow> ('a ndarray \<times> MetaData) traced" where
  "read_dcm_dir E input_dir globber channels_axis =
     (let files = glob E input_dir globber
      in if length files = 0
         then ([], Inl (FileNotFoundError (empty_directory_message input_dir)))
         else (case read_files E files of
                 (tr, Inl e) \<Rightarrow> (tr, Inl e)
               | (tr, Inr slices) \<Rightarrow>
                   (tr, case sort_slices slices of
                          Inl e \<Rightarrow> Inl e
                        | Inr sorted_slices \<Rightarrow> combine_sorted E channels_axis sorted_slices)))"

definition read_img ::
  "'a collaborators \<Rightarrow> path \<Rightarrow> bool \<Rightarrow> int option \<Rightarrow> string \<Rightarrow> bool
     \<Rightarrow> ('a ndarray \<times> MetaData) traced" where
  "read_img E input_path hdr channels_axis globber allow_default_affine =
     (if is_dir E input_path then read_dcm_dir E input_path globber channels_axis
      else read_dcm_file E input_path hdr allow_default_affine channels_axis)"

subsection \<open>Writing\<close>

text \<open>
  \<^verbatim>\<open>del ds.RescaleSlope\<close>: pydicom's \<^verbatim>\<open>__delattr__\<close> removes the element of a keyword
  the dataset holds and raises \<^verbatim>\<open>AttributeError\<close> otherwise.
\<close>

definition delattr_ds :: "dataset \<Rightarrow> tag \<Rightarrow> error + dataset" where
  "delattr_ds ds t =
     (case map_of ds t of
        None \<Rightarrow> Inl (AttributeError t)
      | Some _ \<Rightarrow> Inr (AList.delete t ds))"

text \<open>Lines 90 to 95: the intensity transformation of the template is dropped.\<close>

definition strip_rescale ::
  "'a collaborators \<Rightarrow> DatasetKind \<Rightarrow> dataset \<Rightarrow> bool \<Rightarrow> error + dataset" where
  "strip_rescale E kind ds keep_rescale =
     (if \<not> keep_rescale
      then (if kind = MultiFrame then del_intensity_trans E ds
            else (case delattr_ds ds RescaleSlope of
                    Inl e \<Rightarrow> Inl e
                  | Inr ds1 \<Rightarrow> delattr_ds ds1 RescaleIntercept))
      else Inr ds)"

text \<open>Lines 96 to 99: the dtype of the cast is the caller's, else the template's.\<close>

definition cast_img ::
  "'a collaborators \<Rightarrow> dataset \<Rightarrow> 'a ndarray \<Rightarrow> dtype option \<Rightarrow> error + 'a ndarray" where
  "cast_img E ds img_arr dt =
     (case dt of
        None \<Rightarrow>
          (case pixel_array_dtype E ds of
             Inl e \<Rightarrow> Inl e
           | Inr template_dtype \<Rightarrow> astype E img_arr template_dtype)
      | Some d \<Rightarrow> astype E img_arr d)"

text \<open>
  A successful call has one effect on the file system, \<^verbatim>\<open>ds.save_as(output_filename)\<close>
  as its last statement: the result is the path written and the dataset serialised into
  it. A call that raises has written nothing.
\<close>

definition save_arr2dcm_file ::
  "'a collaborators \<Rightarrow> path \<Rightarrow> path \<Rightarrow> 'a ndarray \<Rightarrow> dtype option \<Rightarrow> bool
     \<Rightarrow> error + (path \<times> dataset)" where
  "save_arr2dcm_file E output_filename template_filename img_arr dt keep_rescale =
     (case dcmread E template_filename of
        Inl e \<Rightarrow> Inl e
      | Inr ds0 \<Rightarrow>
          (case convert_ds E ds0 of
             (kind, ds) \<Rightarrow>
               (case strip_rescale E kind ds keep_rescale of
                  Inl e \<Rightarrow> Inl e
                | Inr ds1 \<Rightarrow>
                    (case cast_img E ds1 img_arr dt of
                       Inl e \<Rightarrow> Inl e
                     | Inr img' \<Rightarrow>
                         Inr (output_filename,
                              AList.update PixelData (BytesV (tobytes E img')) ds1)))))"


section \<open>A worked file system\<close>

text \<open>
  A small concrete set of collaborators, on which the theorems below are exercised.
  Samples are bytes, and every slice holds one row of pixels.
\<close>

definition pixel_bytes :: "dataset \<Rightarrow> byte list" where
  "pixel_bytes ds = (case map_of ds PixelData of Some (BytesV bs) \<Rightarrow> bs | _ \<Rightarrow> [])"

definition unit_affine :: affine where
  "unit_affine = [[1, 0, 0, 0], [0, 1, 0, 0], [0, 0, 1, 0], [0, 0, 0, 1]]"

definition has_position :: "dataset \<Rightarrow> bool" where
  "has_position ds =
     (case map_of ds ImagePositionPatient of Some (FloatsV [x, y, z]) \<Rightarrow> True | _ \<Rightarrow> False)"

definition slice_origin :: "dataset \<Rightarrow> real \<times> real \<times> real" where
  "slice_origin ds =
     (case map_of ds ImagePositionPatient of
        Some (FloatsV [x, y, z]) \<Rightarrow> (x, y, z)
      | _ \<Rightarrow> (0, 0, 0))"

definition slice_z :: "dataset \<Rightarrow> real" where
  "slice_z ds = (case slice_origin ds of (x, y, z) \<Rightarrow> z)"

definition uniform_slices :: "dataset list \<Rightarrow> bool" where
  "uniform_slices slices =
     list_all (\<lambda>x. list_all (\<lambda>y. map_of x SamplesPerPixel = map_of y SamplesPerPixel \<and>
                                  length (pixel_bytes x) = length (pixel_bytes y)) slices) slices"

definition slices_affine :: "dataset list \<Rightarrow> affine" where
  "slices_affine sorted_slices =
     (case sorted_slices of
        [] \<Rightarrow> unit_affine
      | first # _ \<Rightarrow>
          (case slice_origin first of
             (x, y, z) \<Rightarrow>
               (let dz = (if 1 < length sorted_slices
                          then (slice_z (last sorted_slices) - z) / real (length sorted_slices - 1)
                          else 1)
                in [[1, 0, 0, x], [0, 1, 0, y], [0, 0, dz, z], [0, 0, 0, 1]])))"

text \<open>
  Modelled from the spec: \<^verbatim>\<open>dicom_numpy.combine_slices\<close> is a library function
  outside this module. The order of the slices it is given does not decide their place:
  the library sorts them by their position along the slice axis (a stable sort), rejects
  slices that do not form one series (here: different samples per pixel or pixel
  counts) and merges the pixel arrays with the slice index as the last axis. The affine
  follows the spec: its origin is the position of the first sorted slice, its slice
  spacing comes from the positions, and a single slice has unit spacing. The stand-in is
  for axial slices of one pixel row with unit pixel spacing, so that the position along
  the slice axis is the third coordinate of the image position.
\<close>

definition stack_slices :: "dataset list \<Rightarrow> error + (byte ndarray \<times> affine)" where
  "stack_slices slices =
     (if slices = [] \<or> \<not> list_all has_position slices \<or> \<not> uniform_slices slices
      then Inl (LibraryError ''DicomImportException'')
      else (case sort_key slice_z slices of
              [] \<Rightarrow> Inl (LibraryError ''DicomImportException'')
            | first # rest \<Rightarrow>
                Inr (\<lparr>axes = [(length (pixel_bytes first), 1),
                             (Suc (length rest), int (length (pixel_bytes first)))],
                       offset = 0,
                       buffer = concat (map pixel_bytes (first # rest))\<rparr>,
                     slices_affine (first # rest))))"

definition slice_a :: dataset where
  "slice_a =
     [(ImagePositionPatient, FloatsV [0, 0, 1]), (SamplesPerPixel, IntV 1),
      (PixelData, BytesV [1, 2])]"

definition slice_b :: dataset where
  "slice_b =
     [(ImagePositionPatient, FloatsV [0, 0, 0]), (SamplesPerPixel, IntV 1),
      (PixelData, BytesV [3, 4])]"

definition slice_c :: dataset where
  "slice_c =
     [(ImagePositionPatient, FloatsV [0, 0, 5]), (SamplesPerPixel, IntV 1),
      (PixelData, BytesV [1, 2])]"

definition slice_d :: dataset where
  "slice_d =
     [(ImagePositionPatient, FloatsV [0, 0, 5]), (SamplesPerPixel, IntV 1),
      (PixelData, BytesV [3, 4])]"

definition slice_neg :: dataset where
  "slice_neg =
     [(InstanceNumber, IntV (- 1)), (ImagePositionPatient, FloatsV [0, 0, 0]),
      (SamplesPerPixel, IntV 1), (PixelData, BytesV [5, 6])]"

definition slice_two :: dataset where
  "slice_two =
     [(InstanceNumber, IntV 2), (ImagePositionPatient, FloatsV [0, 0, 2]),
      (SamplesPerPixel, IntV 1), (PixelData, BytesV [7, 8])]"

text \<open>A slice whose instance number is present and empty.\<close>

definition slice_blank :: dataset where
  "slice_blank =
     [(InstanceNumber, NoneV), (ImagePositionPatient, FloatsV [0, 0, 3]),
      (SamplesPerPixel, IntV 1), (PixelData, BytesV [9, 9])]"

definition template_ds :: dataset where
  "template_ds =
     [(OtherTag 7, TextV ''Doe^John''), (InstanceNumber, IntV 1),
      (ImagePositionPatient, FloatsV [0, 0, 0]), (SamplesPerPixel, IntV 1),
      (RescaleIntercept, TextV ''-1024''), (RescaleSlope, TextV ''1''),
      (PixelData, BytesV [0, 0])]"

definition bare_ds :: dataset where
  "bare_ds = [(SamplesPerPixel, IntV 1), (PixelData, BytesV [0, 0])]"

definition slope_only_ds :: dataset where
  "slope_only_ds = [(SamplesPerPixel, IntV 1), (RescaleSlope, TextV ''1''), (PixelData, BytesV [0, 0])]"

text \<open>In the worked file system \<open>OtherTag 1\<close> marks a multi-frame dataset and
  \<open>OtherTag 2\<close> holds its intensity transformation.\<close>

definition multi_ds :: dataset where
  "multi_ds =
     [(OtherTag 1, IntV 2), (OtherTag 2, TextV ''transform''), (SamplesPerPixel, IntV 1),
      (RescaleSlope, TextV ''1''), (PixelData, BytesV [0, 0, 0, 0])]"

definition demo_str_tag :: "tag \<Rightarrow> string" where
  "demo_str_tag t =
     (case t of
        InstanceNumber \<Rightarrow> ''(0020, 0013)''
      | SamplesPerPixel \<Rightarrow> ''(0028, 0002)''
      | RescaleSlope \<Rightarrow> ''(0028, 1053)''
      | RescaleIntercept \<Rightarrow> ''(0028, 1052)''
      | PixelData \<Rightarrow> ''(7fe0, 0010)''
      | ImagePositionPatient \<Rightarrow> ''(0020, 0032)''
      | OtherTag n \<Rightarrow> CHR ''#'' # replicate n (CHR ''|''))"

definition demo_dcmread :: "path \<Rightarrow> error + dataset" where
  "demo_dcmread p =
     (if p = ''a'' then Inr slice_a
      else if p = ''b'' then Inr slice_b
      else if p = ''c'' then Inr slice_c
      else if p = ''d'' then Inr slice_d
      else if p = ''neg'' then Inr slice_neg
      else if p = ''two'' then Inr slice_two
      else if p = ''template'' then Inr template_ds
      else if p = ''bare'' then Inr bare_ds
      else if p = ''slope_only'' then Inr slope_only_ds
      else if p = ''multi'' then Inr multi_ds
      else Inl (FileNotFoundError p))"

text \<open>
  The directory \<open>ties\<close> holds two slices without an instance number at the same position,
  \<open>unnumbered\<close> two slices without an instance number at different positions.
\<close>

definition demo_glob :: "path \<Rightarrow> string \<Rightarrow> path list" where
  "demo_glob d g =
     (if d = ''ties'' then [''c'', ''d'']
      else if d = ''unnumbered'' then [''a'', ''b'']
      else if d = ''series'' then [''two'', ''a'', ''neg'']
      else [])"

definition demo :: "byte collaborators" where
  "demo =
     \<lparr>is_dir = (\<lambda>p. p = ''ties'' \<or> p = ''unnumbered'' \<or> p = ''series'' \<or> p = ''empty''),
      glob = demo_glob,
      dcmread = demo_dcmread,
      classify = (\<lambda>ds. if map_of ds (OtherTag 1) = None then SingleFrame else MultiFrame),
      unpack_dataset = (\<lambda>ds allow. stack_slices [ds]),
      combine_slices = stack_slices,
      del_intensity_trans = (\<lambda>ds. Inr (AList.delete (OtherTag 2) ds)),
      pixel_array_dtype =
        (\<lambda>ds. case map_of ds PixelData of
                 None \<Rightarrow> Inl (AttributeError PixelData)
               | Some _ \<Rightarrow> Inr ''uint8''),
      array_dtype = (\<lambda>a. ''uint8''),
      astype_copy = (\<lambda>a d. Inl TypeError),
      item_bytes = (\<lambda>b. [b]),
      str_tag = demo_str_tag\<rparr>"

text \<open>The same file system, enumerating every directory in the opposite order.\<close>

definition demo_reversed :: "byte collaborators" where
  "demo_reversed = demo\<lparr>glob := (\<lambda>d g. rev (demo_glob d g))\<rparr>"

definition row :: "byte list \<Rightarrow> byte ndarray" where
  "row bs = \<lparr>axes = [(length bs, 1)], offset = 0, buffer = bs\<rparr>"

text \<open>What reading the file \<open>template\<close> and the directory \<open>series\<close> returns.\<close>

definition template_img :: "byte ndarray" where
  "template_img = \<lparr>axes = [(2, 1), (1, 2)], offset = 0, buffer = [0, 0]\<rparr>"

definition template_header :: "(string \<times> elem) list" where
  "template_header =
     [(''#|||||||'', TextV ''Doe^John''), (''(0020, 0013)'', IntV 1),
      (''(0020, 0032)'', FloatsV [0, 0, 0]), (''(0028, 0002)'', IntV 1),
      (''(0028, 1052)'', TextV ''-1024''), (''(0028, 1053)'', TextV ''1''),
      (''(7fe0, 0010)'', BytesV [0, 0])]"

definition series_img :: "byte ndarray" where
  "series_img = \<lparr>axes = [(2, 1), (3, 2)], offset = 0, buffer = [5, 6, 1, 2, 7, 8]\<rparr>"

text \<open>What writing from the templates \<open>template\<close> and \<open>multi\<close> saves.\<close>

definition stripped_ds :: dataset where
  "stripped_ds =
     [(OtherTag 7, TextV ''Doe^John''), (InstanceNumber, IntV 1),
      (ImagePositionPatient, FloatsV [0, 0, 0]), (SamplesPerPixel, IntV 1),
      (PixelData, BytesV [9, 9])]"

definition kept_ds :: dataset where
  "kept_ds =
     [(OtherTag 7, TextV ''Doe^John''), (InstanceNumber, IntV 1),
      (ImagePositionPatient, FloatsV [0, 0, 0]), (SamplesPerPixel, IntV 1),
      (RescaleIntercept, TextV ''-1024''), (RescaleSlope, TextV ''1''),
      (PixelData, BytesV [9, 9])]"

definition multi_stripped_ds :: dataset where
  "multi_stripped_ds =
     [(OtherTag 1, IntV 2), (SamplesPerPixel, IntV 1), (RescaleSlope, TextV ''1''),
      (PixelData, BytesV [0, 0, 0, 0])]"

definition multi_written_ds :: dataset where
  "multi_written_ds =
     [(OtherTag 1, IntV 2), (SamplesPerPixel, IntV 1), (RescaleSlope, TextV ''1''),
      (PixelData, BytesV [9, 9])]"

text \<open>A colour image of three samples per pixel, channels first, and the same image with
  the channels moved to the last axis: a view on the same buffer that is not in C order.\<close>

definition rgb_img :: "byte ndarray" where
  "rgb_img = \<lparr>axes = [(3, 4), (2, 2), (2, 1)], offset = 0,
               buffer = [0, 1, 2, 3, 4, 5, 6, 7, 8, 9, 10, 11]\<rparr>"

definition rgb_moved :: "byte ndarray" where
  "rgb_moved = \<lparr>axes = [(2, 2), (2, 1), (3, 4)], offset = 0,
                 buffer = [0, 1, 2, 3, 4, 5, 6, 7, 8, 9, 10, 11]\<rparr>"


section \<open>Properties of reading\<close>

text \<open>
  C10. The result of \<open>read_img\<close> on a path that is no directory does not depend on the
  globber, and its result on a directory depends neither on the header flag nor on
  \<open>allow_default_affine\<close>: calls that differ only in those arguments return the same
  files read and the same outcome.
\<close>

theorem read_img_ignores_unused_arguments:
  "(\<not> is_dir E p \<longrightarrow>
      read_img E p hdr ch g allow = read_img E p hdr ch g' allow) \<and>
   (is_dir E p \<longrightarrow>
      read_img E p hdr ch g allow = read_img E p hdr' ch g allow')"
  by (simp add: read_img_def)

theorem read_img_ignores_unused_arguments_witness: "(\<not> is_dir demo ''template'' \<and>
    read_img demo ''template'' True None ''*'' False = read_img demo ''template'' True None ''*.dcm'' False) \<and>
   (is_dir demo ''series'' \<and> read_img demo ''series'' True None ''*'' False = read_img demo ''series'' False None ''*'' True)"
  using read_img_ignores_unused_arguments[of demo "''template''" True None "''*''" False "''*.dcm''"]
    read_img_ignores_unused_arguments[of demo "''series''" True None "''*''" False _ False True]
  by (simp add: demo_def)

text \<open>
  C3. \<open>read_img\<close> on a directory in which the globber matches no file fails with the
  module's empty-input error, \<^verbatim>\<open>FileNotFoundError\<close> with the message
  \<^verbatim>\<open>Received an empty directory\<close>; no file is handed to \<^verbatim>\<open>dcmread\<close> and no
  result is produced.
\<close>

theorem read_img_empty_directory:
  "is_dir E p \<Longrightarrow> glob E p g = [] \<Longrightarrow>
   read_img E p hdr ch g allow = ([], Inl (FileNotFoundError (empty_directory_message p)))"
  by (simp add: read_img_def read_dcm_dir_def)

theorem read_img_empty_directory_witness: "is_dir demo ''empty'' \<and> glob demo ''empty'' ''*'' = [] \<and>
   read_img demo ''empty'' True None ''*'' False = ([], Inl (FileNotFoundError (empty_directory_message ''empty'')))"
  using read_img_empty_directory[of demo "''empty''" "''*''" True None False]
  by (simp add: demo_def demo_glob_def)

subsection \<open>The header\<close>

lemma update_fresh: "k \<notin> fst ` set al \<Longrightarrow> AList.update k v al = al @ [(k, v)]"
  by (induction al) auto

lemma header_snapshot_fold:
  "distinct (map fst ds) \<Longrightarrow> inj_on f (fst ` set ds) \<Longrightarrow> f ` fst ` set ds \<inter> fst ` set acc = {} \<Longrightarrow>
   foldl (\<lambda>h (k, v). AList.update (f k) v h) acc ds = acc @ map (\<lambda>(k, v). (f k, v)) ds"
proof (induction ds arbitrary: acc)
  case Nil
  then show ?case by simp
next
  case (Cons e ds)
  obtain k v where e: "e = (k, v)" by (cases e)
  have fresh: "f k \<notin> fst ` set acc" using Cons.prems(3) e by auto
  have inj: "inj_on f (fst ` set ds)" using Cons.prems(2) by (auto simp: inj_on_def)
  have knot: "k \<notin> fst ` set ds" using Cons.prems(1) e by (auto simp: image_iff)
  have "f k \<notin> f ` fst ` set ds"
  proof
    assume "f k \<in> f ` fst ` set ds"
    then obtain k' where "k' \<in> fst ` set ds" "f k = f k'" by auto
    with Cons.prems(2) e have "k = k'" by (auto simp: inj_on_def)
    with knot \<open>k' \<in> fst ` set ds\<close> show False by simp
  qed
  then have disj: "f ` fst ` set ds \<inter> fst ` set (acc @ [(f k, v)]) = {}"
    using Cons.prems(3) by auto
  have "foldl (\<lambda>h (k, v). AList.update (f k) v h) (acc @ [(f k, v)]) ds
        = (acc @ [(f k, v)]) @ map (\<lambda>(k, v). (f k, v)) ds"
    using Cons.IH[OF _ inj disj] Cons.prems(1) by simp
  then show ?case using e fresh by (simp add: update_fresh)
qed

lemma header_snapshot_entries:
  "distinct (map fst ds) \<Longrightarrow> inj_on (str_tag E) (fst ` set ds) \<Longrightarrow>
   header_snapshot E ds = map (\<lambda>(k, v). (str_tag E k, v)) ds"
  unfolding header_snapshot_def using header_snapshot_fold[of ds "str_tag E" "[]"] by simp

lemma read_dcm_dir_header:
  "read_dcm_dir E p g ch = (tr, Inr (img, md)) \<Longrightarrow> header md = None"
  by (auto simp: read_dcm_dir_def combine_sorted_def aff2meta_def Let_def
      split: if_splits prod.splits sum.splits list.splits)

lemma read_dcm_file_header:
  "read_dcm_file E p hdr allow ch = (tr, Inr (img, md)) \<Longrightarrow>
   \<exists>ds. dcmread E p = Inr ds \<and> header md = (if hdr then Some (header_snapshot E ds) else None)"
  by (auto simp: read_dcm_file_def convert_ds_def aff2meta_def Let_def
      split: if_splits prod.splits sum.splits)

lemmas demo_slice_defs =
  slice_a_def slice_b_def slice_c_def slice_d_def slice_neg_def slice_two_def template_ds_def

lemmas demo_stack_defs =
  stack_slices_def has_position_def uniform_slices_def slice_z_def slice_origin_def
  slices_affine_def pixel_bytes_def unit_affine_def

lemma demo_stack_template: "stack_slices [template_ds] = Inr (template_img, unit_affine)"
  by (simp add: demo_stack_defs template_ds_def template_img_def)

lemma demo_stack_series:
  "stack_slices [slice_neg, slice_a, slice_two] = Inr (series_img, unit_affine)"
  by (simp add: demo_stack_defs demo_slice_defs series_img_def)

lemma demo_sort_series:
  "sort_slices [slice_two, slice_a, slice_neg] = Inr [slice_neg, slice_a, slice_two]"
  by (simp add: sort_slices_def instance_number_key_def is_int_def int_key_def py_int_def
      demo_slice_defs)

lemma demo_template_read:
  "read_img demo ''template'' True None ''*'' False =
     ([''template''], Inr (template_img, \<lparr>affine = unit_affine, coord_sys = ''itk'', header = Some template_header\<rparr>))"
proof -
  have "header_snapshot demo template_ds = template_header"
    by (simp add: header_snapshot_def demo_def demo_str_tag_def template_ds_def template_header_def
        eval_nat_numeral)
  moreover have "samples_per_pixel_of template_ds = Inr 1"
    by (simp add: samples_per_pixel_of_def template_ds_def)
  moreover have "dcmread demo ''template'' = Inr template_ds" "\<not> is_dir demo ''template''"
    "classify demo template_ds = SingleFrame" "combine_slices demo = stack_slices"
    by (simp_all add: demo_def demo_dcmread_def template_ds_def)
  ultimately show ?thesis
    by (simp add: read_img_def read_dcm_file_def convert_ds_def demo_stack_template aff2meta_def
        coord_sys_itk_def move_channels_axis_def)
qed

lemma demo_series_read:
  "read_img demo ''series'' True None ''*'' False =
     ([''two'', ''a'', ''neg''], Inr (series_img, \<lparr>affine = unit_affine, coord_sys = ''itk'', header = None\<rparr>))"
proof -
  have "read_files demo [''two'', ''a'', ''neg''] = ([''two'', ''a'', ''neg''], Inr [slice_two, slice_a, slice_neg])"
    by (simp add: demo_def demo_dcmread_def)
  moreover have "glob demo ''series'' ''*'' = [''two'', ''a'', ''neg'']" "is_dir demo ''series''"
    "combine_slices demo = stack_slices"
    by (simp_all add: demo_def demo_glob_def)
  moreover have "samples_per_pixel_of slice_neg = Inr 1"
    by (simp add: samples_per_pixel_of_def slice_neg_def)
  ultimately show ?thesis
    by (simp add: read_img_def read_dcm_dir_def demo_sort_series combine_sorted_def
        demo_stack_series aff2meta_def coord_sys_itk_def move_channels_axis_def)
qed

text \<open>
  C9. A successful \<open>read_img\<close> returns metadata with a header exactly when the path is
  a single file and the header is requested; the header is then the snapshot of the
  parsed dataset, one entry per tag under the tag's string. A directory read never sets the
  header, whatever the header argument.
\<close>

theorem read_img_header:
  assumes "read_img E p hdr ch g allow = (tr, Inr (img, md))"
  shows "if is_dir E p \<or> \<not> hdr then header md = None
         else \<exists>ds. dcmread E p = Inr ds \<and> header md = Some (header_snapshot E ds) \<and>
                (distinct (map fst ds) \<and> inj_on (str_tag E) (fst ` set ds) \<longrightarrow>
                   header_snapshot E ds = map (\<lambda>(k, v). (str_tag E k, v)) ds)"
proof (cases "is_dir E p")
  case True
  with assms have "read_dcm_dir E p g ch = (tr, Inr (img, md))" by (simp add: read_img_def)
  then have "header md = None" by (rule read_dcm_dir_header)
  with True show ?thesis by simp
next
  case False
  with assms have "read_dcm_file E p hdr allow ch = (tr, Inr (img, md))" by (simp add: read_img_def)
  then obtain ds where ds: "dcmread E p = Inr ds"
    and h: "header md = (if hdr then Some (header_snapshot E ds) else None)"
    using read_dcm_file_header by blast
  show ?thesis
  proof (cases hdr)
    case True
    with False ds h header_snapshot_entries[of ds E] show ?thesis by auto
  next
    case False
    with h show ?thesis by simp
  qed
qed

theorem read_img_header_witness:
  "read_img demo ''template'' True None ''*'' False =
     ([''template''], Inr (template_img, \<lparr>affine = unit_affine, coord_sys = ''itk'', header = Some template_header\<rparr>)) \<and>
   \<not> is_dir demo ''template'' \<and>
   dcmread demo ''template'' = Inr template_ds \<and>
   distinct (map fst template_ds) \<and> inj_on (str_tag demo) (fst ` set template_ds) \<and>
   template_header = map (\<lambda>(k, v). (str_tag demo k, v)) template_ds \<and>
   read_img demo ''series'' True None ''*'' False =
     ([''two'', ''a'', ''neg''], Inr (series_img, \<lparr>affine = unit_affine, coord_sys = ''itk'', header = None\<rparr>)) \<and>
   is_dir demo ''series''"
proof -
  have isfile: "\<not> is_dir demo ''template''" and dir: "is_dir demo ''series''"
    by (simp_all add: demo_def)
  have ds: "dcmread demo ''template'' = Inr template_ds"
    by (simp add: demo_def demo_dcmread_def)
  have wf: "distinct (map fst template_ds) \<and> inj_on (str_tag demo) (fst ` set template_ds)"
    by (simp add: demo_def template_ds_def demo_str_tag_def)
  from read_img_header[OF demo_template_read] isfile ds wf
  have "template_header = map (\<lambda>(k, v). (str_tag demo k, v)) template_ds"
    by auto
  moreover from read_img_header[OF demo_series_read] dir
  have "header \<lparr>affine = unit_affine, coord_sys = ''itk'', header = None\<rparr> = None"
    by simp
  ultimately show ?thesis
    using demo_template_read demo_series_read isfile dir ds wf by simp
qed

section \<open>Properties of writing\<close>

lemma delattr_ds_Inr:
  "delattr_ds ds t = Inr ds' \<longleftrightarrow> map_of ds t \<noteq> None \<and> ds' = AList.delete t ds"
  by (auto simp: delattr_ds_def split: option.splits)

lemma delattr_ds_Inl:
  "delattr_ds ds t = Inl e \<longleftrightarrow> map_of ds t = None \<and> e = AttributeError t"
  by (auto simp: delattr_ds_def split: option.splits)

lemma strip_rescale_single:
  "strip_rescale E SingleFrame ds False =
     (if map_of ds RescaleSlope = None then Inl (AttributeError RescaleSlope)
      else if map_of ds RescaleIntercept = None then Inl (AttributeError RescaleIntercept)
      else Inr (AList.delete RescaleIntercept (AList.delete RescaleSlope ds)))"
  by (auto simp: strip_rescale_def delattr_ds_def AList.delete_conv' split: option.splits)

lemma strip_rescale_keep: "strip_rescale E kind ds True = Inr ds"
  by (simp add: strip_rescale_def)

lemma strip_rescale_multi: "strip_rescale E MultiFrame ds False = del_intensity_trans E ds"
  by (simp add: strip_rescale_def)

lemma save_arr2dcm_file_Inr:
  "save_arr2dcm_file E out tmpl img dt keep = Inr (out', ds') \<longleftrightarrow>
   out' = out \<and>
   (\<exists>ds base img'. dcmread E tmpl = Inr ds \<and> strip_rescale E (classify E ds) ds keep = Inr base \<and>
       cast_img E base img dt = Inr img' \<and>
       ds' = AList.update PixelData (BytesV (tobytes E img')) base)"
  by (auto simp: save_arr2dcm_file_def convert_ds_def split: sum.splits)

lemma save_arr2dcm_file_strip_error:
  "dcmread E tmpl = Inr ds \<Longrightarrow> strip_rescale E (classify E ds) ds keep = Inl e \<Longrightarrow>
   save_arr2dcm_file E out tmpl img dt keep = Inl e"
  by (simp add: save_arr2dcm_file_def convert_ds_def)

lemma map_of_update_other: "t \<noteq> k \<Longrightarrow> map_of (AList.update k v al) t = map_of al t"
  by (simp add: AList.update_conv')

lemma filter_update_other:
  "filter (\<lambda>e. fst e \<noteq> k) (AList.update k v al) = filter (\<lambda>e. fst e \<noteq> k) al"
  by (induction al) auto

subsection \<open>The bytes of a C-contiguous array\<close>








subsection \<open>The worked file system\<close>

lemma demo_dcmread_files:
  "dcmread demo ''template'' = Inr template_ds"
  "dcmread demo ''bare'' = Inr bare_ds"
  "dcmread demo ''slope_only'' = Inr slope_only_ds"
  "dcmread demo ''multi'' = Inr multi_ds"
  by (simp_all add: demo_def demo_dcmread_def)

lemma demo_classify:
  "classify demo template_ds = SingleFrame"
  "classify demo bare_ds = SingleFrame"
  "classify demo slope_only_ds = SingleFrame"
  "classify demo multi_ds = MultiFrame"
  by (simp_all add: demo_def template_ds_def bare_ds_def slope_only_ds_def multi_ds_def)

lemma demo_astype: "astype demo a ''uint8'' = Inr a"
  by (simp add: astype_def demo_def)

lemma demo_pixel_dtype:
  "pixel_array_dtype demo (AList.delete RescaleIntercept (AList.delete RescaleSlope template_ds))
     = Inr ''uint8''"
  "pixel_array_dtype demo template_ds = Inr ''uint8''"
  by (simp_all add: demo_def template_ds_def)

lemma demo_cast:
  "cast_img demo (AList.delete RescaleIntercept (AList.delete RescaleSlope template_ds)) a None
     = Inr a"
  "cast_img demo template_ds a None = Inr a"
  "cast_img demo ds a (Some ''uint8'') = Inr a"
  by (simp_all add: cast_img_def demo_pixel_dtype demo_astype)

lemma demo_tobytes_row: "tobytes demo (row [9, 9]) = [9, 9]"
  by (simp add: tobytes_def item_def position_def ndim_def row_def demo_def upt_rec)



lemma demo_strip:
  "strip_rescale demo SingleFrame template_ds False
     = Inr (AList.delete RescaleIntercept (AList.delete RescaleSlope template_ds))"
  "strip_rescale demo MultiFrame multi_ds False = Inr multi_stripped_ds"
  by (simp_all add: strip_rescale_single strip_rescale_multi template_ds_def multi_ds_def
      multi_stripped_ds_def demo_def)

lemma demo_save_template:
  "save_arr2dcm_file demo ''out'' ''template'' (row [9, 9]) None False = Inr (''out'', stripped_ds)"
proof -
  have "AList.update PixelData (BytesV [9, 9])
          (AList.delete RescaleIntercept (AList.delete RescaleSlope template_ds)) = stripped_ds"
    by (simp add: template_ds_def stripped_ds_def)
  then show ?thesis
    by (simp add: save_arr2dcm_file_def convert_ds_def demo_dcmread_files demo_classify demo_strip
        demo_cast demo_tobytes_row)
qed

lemma demo_save_template_keep:
  "save_arr2dcm_file demo ''out'' ''template'' (row [9, 9]) None True = Inr (''out'', kept_ds)"
proof -
  have "AList.update PixelData (BytesV [9, 9]) template_ds = kept_ds"
    by (simp add: template_ds_def kept_ds_def)
  then show ?thesis
    by (simp add: save_arr2dcm_file_def convert_ds_def demo_dcmread_files strip_rescale_keep
        demo_cast demo_tobytes_row)
qed

lemma demo_save_multi:
  "save_arr2dcm_file demo ''out'' ''multi'' (row [9, 9]) (Some ''uint8'') False =
     Inr (''out'', multi_written_ds)"
proof -
  have "AList.update PixelData (BytesV [9, 9]) multi_stripped_ds = multi_written_ds"
    by (simp add: multi_stripped_ds_def multi_written_ds_def)
  then show ?thesis
    by (simp add: save_arr2dcm_file_def convert_ds_def demo_dcmread_files demo_classify demo_strip
        demo_cast demo_tobytes_row)
qed


text \<open>
  C4. Writing from a single-frame template with \<open>keep_rescale\<close> false removes the
  rescale slope and the rescale intercept from the template dataset: what is saved is the
  template without these two entries and with the pixel data assigned, every other entry
  as in the template. The call fails with the missing-tag error (pydicom's
  \<^verbatim>\<open>AttributeError\<close> for the keyword) when one of the two is not in the template. With
  \<open>keep_rescale\<close> true what is saved is the template with the pixel data assigned: no tag
  is removed.
\<close>

theorem save_rescale_tags:
  assumes "dcmread E tmpl = Inr ds" and "classify E ds = SingleFrame"
  shows "(map_of ds RescaleSlope \<noteq> None \<and> map_of ds RescaleIntercept \<noteq> None \<longrightarrow>
            save_arr2dcm_file E out tmpl img dt False =
              (case cast_img E (AList.delete RescaleIntercept (AList.delete RescaleSlope ds)) img dt of
                 Inl e \<Rightarrow> Inl e
               | Inr img' \<Rightarrow>
                   Inr (out, AList.update PixelData (BytesV (tobytes E img'))
                               (AList.delete RescaleIntercept (AList.delete RescaleSlope ds)))) \<and>
            (\<forall>p ds'. save_arr2dcm_file E out tmpl img dt False = Inr (p, ds') \<longrightarrow>
               map_of ds' RescaleSlope = None \<and> map_of ds' RescaleIntercept = None \<and>
               (\<forall>t. t \<notin> {RescaleSlope, RescaleIntercept, PixelData} \<longrightarrow>
                  map_of ds' t = map_of ds t))) \<and>
         (map_of ds RescaleSlope = None \<longrightarrow>
            save_arr2dcm_file E out tmpl img dt False = Inl (AttributeError RescaleSlope)) \<and>
         (map_of ds RescaleSlope \<noteq> None \<and> map_of ds RescaleIntercept = None \<longrightarrow>
            save_arr2dcm_file E out tmpl img dt False = Inl (AttributeError RescaleIntercept)) \<and>
         save_arr2dcm_file E out tmpl img dt True =
           (case cast_img E ds img dt of
              Inl e \<Rightarrow> Inl e
            | Inr img' \<Rightarrow> Inr (out, AList.update PixelData (BytesV (tobytes E img')) ds)) \<and>
         (\<forall>p ds'. save_arr2dcm_file E out tmpl img dt True = Inr (p, ds') \<longrightarrow>
            (\<forall>t. map_of ds t \<noteq> None \<longrightarrow> map_of ds' t \<noteq> None))"
proof -
  let ?stripped = "AList.delete RescaleIntercept (AList.delete RescaleSlope ds)"
  have keep: "save_arr2dcm_file E out tmpl img dt True =
           (case cast_img E ds img dt of
              Inl e \<Rightarrow> Inl e
            | Inr img' \<Rightarrow> Inr (out, AList.update PixelData (BytesV (tobytes E img')) ds))"
    using assms(1) by (simp add: save_arr2dcm_file_def convert_ds_def strip_rescale_keep)
  have kept: "\<forall>p ds'. save_arr2dcm_file E out tmpl img dt True = Inr (p, ds') \<longrightarrow>
            (\<forall>t. map_of ds t \<noteq> None \<longrightarrow> map_of ds' t \<noteq> None)"
    unfolding keep by (auto simp: AList.update_conv' split: sum.splits)
  have slope: "map_of ds RescaleSlope = None \<longrightarrow>
            save_arr2dcm_file E out tmpl img dt False = Inl (AttributeError RescaleSlope)"
    using assms by (simp add: save_arr2dcm_file_def convert_ds_def strip_rescale_single)
  have intercept: "map_of ds RescaleSlope \<noteq> None \<and> map_of ds RescaleIntercept = None \<longrightarrow>
            save_arr2dcm_file E out tmpl img dt False = Inl (AttributeError RescaleIntercept)"
    using assms by (simp add: save_arr2dcm_file_def convert_ds_def strip_rescale_single)
  have both: "map_of ds RescaleSlope \<noteq> None \<and> map_of ds RescaleIntercept \<noteq> None \<longrightarrow>
            save_arr2dcm_file E out tmpl img dt False =
              (case cast_img E ?stripped img dt of
                 Inl e \<Rightarrow> Inl e
               | Inr img' \<Rightarrow>
                   Inr (out, AList.update PixelData (BytesV (tobytes E img')) ?stripped)) \<and>
            (\<forall>p ds'. save_arr2dcm_file E out tmpl img dt False = Inr (p, ds') \<longrightarrow>
               map_of ds' RescaleSlope = None \<and> map_of ds' RescaleIntercept = None \<and>
               (\<forall>t. t \<notin> {RescaleSlope, RescaleIntercept, PixelData} \<longrightarrow>
                  map_of ds' t = map_of ds t))"
  proof
    assume present: "map_of ds RescaleSlope \<noteq> None \<and> map_of ds RescaleIntercept \<noteq> None"
    have eq: "save_arr2dcm_file E out tmpl img dt False =
              (case cast_img E ?stripped img dt of
                 Inl e \<Rightarrow> Inl e
               | Inr img' \<Rightarrow>
                   Inr (out, AList.update PixelData (BytesV (tobytes E img')) ?stripped))"
      using assms present
      by (auto simp: save_arr2dcm_file_def convert_ds_def strip_rescale_single)
    have "\<forall>p ds'. save_arr2dcm_file E out tmpl img dt False = Inr (p, ds') \<longrightarrow>
               map_of ds' RescaleSlope = None \<and> map_of ds' RescaleIntercept = None \<and>
               (\<forall>t. t \<notin> {RescaleSlope, RescaleIntercept, PixelData} \<longrightarrow>
                  map_of ds' t = map_of ds t)"
      unfolding eq by (auto simp: AList.update_conv' AList.delete_conv' split: sum.splits)
    with eq show "save_arr2dcm_file E out tmpl img dt False =
              (case cast_img E ?stripped img dt of
                 Inl e \<Rightarrow> Inl e
               | Inr img' \<Rightarrow>
                   Inr (out, AList.update PixelData (BytesV (tobytes E img')) ?stripped)) \<and>
            (\<forall>p ds'. save_arr2dcm_file E out tmpl img dt False = Inr (p, ds') \<longrightarrow>
               map_of ds' RescaleSlope = None \<and> map_of ds' RescaleIntercept = None \<and>
               (\<forall>t. t \<notin> {RescaleSlope, RescaleIntercept, PixelData} \<longrightarrow>
                  map_of ds' t = map_of ds t))"
      by (rule conjI)
  qed
  from both slope intercept keep kept show ?thesis by (intro conjI)
qed

theorem save_rescale_tags_witness:
  "dcmread demo ''template'' = Inr template_ds \<and> classify demo template_ds = SingleFrame \<and>
   map_of template_ds RescaleSlope \<noteq> None \<and> map_of template_ds RescaleIntercept \<noteq> None \<and>
   cast_img demo (AList.delete RescaleIntercept (AList.delete RescaleSlope template_ds))
     (row [9, 9]) None = Inr (row [9, 9]) \<and>
   save_arr2dcm_file demo ''out'' ''template'' (row [9, 9]) None False
     = Inr (''out'', AList.update PixelData (BytesV (tobytes demo (row [9, 9])))
                      (AList.delete RescaleIntercept (AList.delete RescaleSlope template_ds))) \<and>
   save_arr2dcm_file demo ''out'' ''template'' (row [9, 9]) None False = Inr (''out'', stripped_ds) \<and>
   map_of stripped_ds RescaleSlope = None \<and> map_of stripped_ds RescaleIntercept = None \<and>
   map_of stripped_ds InstanceNumber = map_of template_ds InstanceNumber \<and>
   dcmread demo ''bare'' = Inr bare_ds \<and> classify demo bare_ds = SingleFrame \<and>
   map_of bare_ds RescaleSlope = None \<and>
   save_arr2dcm_file demo ''out'' ''bare'' (row [9, 9]) None False = Inl (AttributeError RescaleSlope) \<and>
   dcmread demo ''slope_only'' = Inr slope_only_ds \<and> classify demo slope_only_ds = SingleFrame \<and>
   map_of slope_only_ds RescaleSlope \<noteq> None \<and> map_of slope_only_ds RescaleIntercept = None \<and>
   save_arr2dcm_file demo ''out'' ''slope_only'' (row [9, 9]) None False
     = Inl (AttributeError RescaleIntercept) \<and>
   save_arr2dcm_file demo ''out'' ''template'' (row [9, 9]) None True
     = Inr (''out'', AList.update PixelData (BytesV (tobytes demo (row [9, 9]))) template_ds) \<and>
   save_arr2dcm_file demo ''out'' ''template'' (row [9, 9]) None True = Inr (''out'', kept_ds) \<and>
   map_of template_ds (OtherTag 7) \<noteq> None \<and> map_of kept_ds (OtherTag 7) \<noteq> None"
proof -
  have present: "map_of template_ds RescaleSlope \<noteq> None \<and> map_of template_ds RescaleIntercept \<noteq> None"
    "map_of template_ds (OtherTag 7) \<noteq> None"
    by (simp_all add: template_ds_def)
  have absent: "map_of bare_ds RescaleSlope = None"
    "map_of slope_only_ds RescaleSlope \<noteq> None \<and> map_of slope_only_ds RescaleIntercept = None"
    by (simp_all add: bare_ds_def slope_only_ds_def)
  note t = save_rescale_tags[OF demo_dcmread_files(1) demo_classify(1), of "''out''" "row [9, 9]" None]
  note b = save_rescale_tags[OF demo_dcmread_files(2) demo_classify(2), of "''out''" "row [9, 9]" None]
  note s = save_rescale_tags[OF demo_dcmread_files(3) demo_classify(3), of "''out''" "row [9, 9]" None]
  from t present have 0: "save_arr2dcm_file demo ''out'' ''template'' (row [9, 9]) None False
     = Inr (''out'', AList.update PixelData (BytesV (tobytes demo (row [9, 9])))
                      (AList.delete RescaleIntercept (AList.delete RescaleSlope template_ds)))"
    by (simp add: demo_cast)
  from t present demo_save_template
  have 1: "map_of stripped_ds RescaleSlope = None \<and> map_of stripped_ds RescaleIntercept = None \<and>
           map_of stripped_ds InstanceNumber = map_of template_ds InstanceNumber"
    by auto
  from b absent have 2: "save_arr2dcm_file demo ''out'' ''bare'' (row [9, 9]) None False
      = Inl (AttributeError RescaleSlope)"
    by blast
  from s absent have 3: "save_arr2dcm_file demo ''out'' ''slope_only'' (row [9, 9]) None False
      = Inl (AttributeError RescaleIntercept)"
    by blast
  from t have 4: "save_arr2dcm_file demo ''out'' ''template'' (row [9, 9]) None True
     = Inr (''out'', AList.update PixelData (BytesV (tobytes demo (row [9, 9]))) template_ds)"
    by (simp add: demo_cast)
  from t present demo_save_template_keep have 5: "map_of kept_ds (OtherTag 7) \<noteq> None"
    by blast
  from 0 1 2 3 4 5 present absent demo_dcmread_files demo_classify demo_save_template
    demo_save_template_keep demo_cast(1)
  show ?thesis by simp
qed

text \<open>
  C5. After a successful write the dataset serialised to the output path is the template
  except for the substituted pixel data and, when \<open>keep_rescale\<close> is false, the removed
  rescale tags (single frame) or what the dataset's own removal of the intensity
  transformation changes (multi frame): every other entry is the template's, in the
  template's order.
\<close>

theorem save_frame:
  assumes "save_arr2dcm_file E out tmpl img dt keep = Inr (p, ds')"
  shows "p = out \<and>
         (\<exists>ds base. dcmread E tmpl = Inr ds \<and>
            (keep \<longrightarrow> base = ds) \<and>
            (\<not> keep \<and> classify E ds = SingleFrame \<longrightarrow>
               base = AList.delete RescaleIntercept (AList.delete RescaleSlope ds)) \<and>
            (\<not> keep \<and> classify E ds = MultiFrame \<longrightarrow> del_intensity_trans E ds = Inr base) \<and>
            (\<forall>t. t \<noteq> PixelData \<longrightarrow> map_of ds' t = map_of base t) \<and>
            filter (\<lambda>e. fst e \<noteq> PixelData) ds' = filter (\<lambda>e. fst e \<noteq> PixelData) base \<and>
            (keep \<or> classify E ds = SingleFrame \<longrightarrow>
               (\<forall>t. t \<notin> {PixelData, RescaleSlope, RescaleIntercept} \<longrightarrow>
                  map_of ds' t = map_of ds t)))"
proof -
  from assms obtain ds base img' where out: "p = out"
    and ds: "dcmread E tmpl = Inr ds"
    and base: "strip_rescale E (classify E ds) ds keep = Inr base"
    and ds': "ds' = AList.update PixelData (BytesV (tobytes E img')) base"
    by (auto simp: save_arr2dcm_file_Inr)
  have k: "keep \<longrightarrow> base = ds"
    using base by (auto simp: strip_rescale_keep)
  have s: "\<not> keep \<and> classify E ds = SingleFrame \<longrightarrow>
             base = AList.delete RescaleIntercept (AList.delete RescaleSlope ds)"
    using base by (auto simp: strip_rescale_single split: if_splits)
  have m: "\<not> keep \<and> classify E ds = MultiFrame \<longrightarrow> del_intensity_trans E ds = Inr base"
    using base by (auto simp: strip_rescale_multi)
  have f: "\<forall>t. t \<noteq> PixelData \<longrightarrow> map_of ds' t = map_of base t"
    using ds' by (simp add: map_of_update_other)
  have o: "filter (\<lambda>e. fst e \<noteq> PixelData) ds' = filter (\<lambda>e. fst e \<noteq> PixelData) base"
    using ds' by (simp add: filter_update_other)
  have r: "keep \<or> classify E ds = SingleFrame \<longrightarrow>
             (\<forall>t. t \<notin> {PixelData, RescaleSlope, RescaleIntercept} \<longrightarrow> map_of ds' t = map_of ds t)"
  proof (cases keep)
    case True
    with k f show ?thesis by simp
  next
    case False
    with s f show ?thesis by (auto simp: AList.delete_conv')
  qed
  from out ds k s m f o r show ?thesis by blast
qed

theorem save_frame_witness:
  "save_arr2dcm_file demo ''out'' ''template'' (row [9, 9]) None False = Inr (''out'', stripped_ds) \<and>
   classify demo template_ds = SingleFrame \<and>
   map_of stripped_ds (OtherTag 7) = map_of template_ds (OtherTag 7) \<and>
   map_of stripped_ds InstanceNumber = map_of template_ds InstanceNumber \<and>
   save_arr2dcm_file demo ''out'' ''template'' (row [9, 9]) None True = Inr (''out'', kept_ds) \<and>
   map_of kept_ds RescaleSlope = map_of template_ds RescaleSlope \<and>
   save_arr2dcm_file demo ''out'' ''multi'' (row [9, 9]) (Some ''uint8'') False
     = Inr (''out'', multi_written_ds) \<and>
   classify demo multi_ds = MultiFrame \<and>
   del_intensity_trans demo multi_ds = Inr multi_stripped_ds \<and>
   map_of multi_written_ds RescaleSlope = map_of multi_stripped_ds RescaleSlope"
proof -
  from save_frame[OF demo_save_template] demo_dcmread_files(1) demo_classify(1)
  have 1: "map_of stripped_ds (OtherTag 7) = map_of template_ds (OtherTag 7) \<and>
           map_of stripped_ds InstanceNumber = map_of template_ds InstanceNumber"
    by auto
  from save_frame[OF demo_save_template_keep] demo_dcmread_files(1)
  have 2: "map_of kept_ds RescaleSlope = map_of template_ds RescaleSlope"
    by auto
  have d: "del_intensity_trans demo multi_ds = Inr multi_stripped_ds"
    by (simp add: demo_def multi_ds_def multi_stripped_ds_def)
  from save_frame[OF demo_save_multi] demo_dcmread_files(4) demo_classify(4) d
  have 3: "map_of multi_written_ds RescaleSlope = map_of multi_stripped_ds RescaleSlope"
    by auto
  from 1 2 3 d demo_save_template demo_save_template_keep demo_save_multi demo_classify
  show ?thesis by simp
qed

subsection \<open>The bytes written\<close>




section \<open>Properties of \<open>move_channels_axis\<close>\<close>

lemma filter_neq_nth:
  "distinct ys \<Longrightarrow> i < length ys \<Longrightarrow> filter (\<lambda>k. k \<noteq> ys ! i) ys = list_pop ys i"
proof -
  assume d: "distinct ys" and i: "i < length ys"
  have split: "ys = take i ys @ ys ! i # drop (Suc i) ys"
    using i by (rule id_take_nth_drop)
  have "distinct (take i ys @ ys ! i # drop (Suc i) ys)"
    using d split by simp
  then have out: "ys ! i \<notin> set (take i ys)" "ys ! i \<notin> set (drop (Suc i) ys)"
    by auto
  have l: "filter (\<lambda>k. k \<noteq> ys ! i) (take i ys) = take i ys"
    using out(1) by (auto simp: filter_id_conv)
  have r: "filter (\<lambda>k. k \<noteq> ys ! i) (drop (Suc i) ys) = drop (Suc i) ys"
    using out(2) by (auto simp: filter_id_conv)
  have "filter (\<lambda>k. k \<noteq> ys ! i) (take i ys @ ys ! i # drop (Suc i) ys)
          = take i ys @ drop (Suc i) ys"
    using l r by simp
  with split show ?thesis by (simp add: list_pop_def)
qed

lemma filter_neq_upt: "s < n \<Longrightarrow> filter (\<lambda>k. k \<noteq> s) [0..<n] = list_pop [0..<n] s"
  using filter_neq_nth[of "[0..<n]" s] by simp

lemma map_list_pop: "map f (list_pop ys i) = list_pop (map f ys) i"
  by (simp add: list_pop_def take_map drop_map)

lemma map_list_insert: "map f (list_insert ys i v) = list_insert (map f ys) i (f v)"
  by (simp add: list_insert_def take_map drop_map)

lemma map_nth_moveaxis_order:
  "s < length xs \<Longrightarrow> map (\<lambda>k. xs ! k) (moveaxis_order (length xs) s d) = move_entry xs s d"
  by (simp add: moveaxis_order_def move_entry_def filter_neq_upt map_list_insert map_list_pop map_nth)

lemma length_list_pop: "i < length xs \<Longrightarrow> length (list_pop xs i) = length xs - 1"
  by (simp add: list_pop_def)

lemma length_move_entry: "s < length xs \<Longrightarrow> length (move_entry xs s d) = length xs"
  by (simp add: move_entry_def list_insert_def length_list_pop)

lemma nth_move_entry:
  "s < length xs \<Longrightarrow> d < length xs \<Longrightarrow> move_entry xs s d ! d = xs ! s"
  by (simp add: move_entry_def list_insert_def length_list_pop nth_append)

lemma list_pop_list_insert: "d \<le> length ys \<Longrightarrow> list_pop (list_insert ys d v) d = ys"
  by (simp add: list_pop_def list_insert_def)

lemma list_pop_move_entry:
  "s < length xs \<Longrightarrow> d < length xs \<Longrightarrow> list_pop (move_entry xs s d) d = list_pop xs s"
  by (simp add: move_entry_def list_pop_list_insert length_list_pop)

lemma list_insert_list_pop: "s < length xs \<Longrightarrow> list_insert (list_pop xs s) s (xs ! s) = xs"
  by (simp add: list_insert_def list_pop_def id_take_nth_drop[symmetric])

lemma move_entry_same: "s < length xs \<Longrightarrow> move_entry xs s s = xs"
  by (simp add: move_entry_def list_insert_list_pop)

lemma move_entry_back:
  assumes "s < length xs" "d < length xs"
  shows "move_entry (move_entry xs s d) d s = xs"
proof -
  have "move_entry (move_entry xs s d) d s
        = list_insert (list_pop (move_entry xs s d) d) s (move_entry xs s d ! d)"
    by (simp add: move_entry_def)
  also have "\<dots> = list_insert (list_pop xs s) s (xs ! s)"
    using assms by (simp add: list_pop_move_entry nth_move_entry)
  also have "\<dots> = xs" using assms(1) by (rule list_insert_list_pop)
  finally show ?thesis .
qed

lemma mset_list_pop: "i < length ys \<Longrightarrow> add_mset (ys ! i) (mset (list_pop ys i)) = mset ys"
proof -
  assume "i < length ys"
  then have "ys = take i ys @ ys ! i # drop (Suc i) ys" by (rule id_take_nth_drop)
  then have "mset ys = mset (take i ys @ ys ! i # drop (Suc i) ys)" by simp
  then show ?thesis by (simp add: list_pop_def)
qed

lemma mset_list_insert: "mset (list_insert ys i v) = add_mset v (mset ys)"
proof -
  have "mset (take i ys) + mset (drop i ys) = mset ys"
    by (metis append_take_drop_id mset_append)
  then show ?thesis by (simp add: list_insert_def)
qed

lemma mset_moveaxis_order: "s < n \<Longrightarrow> mset (moveaxis_order n s d) = mset [0..<n]"
  using mset_list_pop[of s "[0..<n]"]
  by (simp add: moveaxis_order_def filter_neq_upt mset_list_insert)

lemma length_moveaxis_order: "s < n \<Longrightarrow> length (moveaxis_order n s d) = n"
  using mset_moveaxis_order[of s n d] by (metis length_upt mset_eq_length minus_nat.diff_0)

lemma set_moveaxis_order: "s < n \<Longrightarrow> set (moveaxis_order n s d) = {0..<n}"
  using mset_moveaxis_order[of s n d] by (metis mset_eq_setD set_upt)


lemma sum_list_map_mset_cong:
  fixes g :: "nat \<Rightarrow> int"
  shows "mset xs = mset ys \<Longrightarrow> sum_list (map g xs) = sum_list (map g ys)"
proof -
  assume "mset xs = mset ys"
  then have "mset (map g xs) = mset (map g ys)" by simp
  then have "sum_mset (mset (map g xs)) = sum_mset (mset (map g ys))" by (rule arg_cong)
  then show ?thesis by (simp only: sum_mset_sum_list)
qed

lemma ndim_transpose_axes: "ndim (transpose_axes a order) = length order"
  by (simp add: ndim_def transpose_axes_def)

lemma transpose_axes_fields:
  "axes (transpose_axes a order) = map (\<lambda>k. axes a ! k) order"
  "offset (transpose_axes a order) = offset a"
  "buffer (transpose_axes a order) = buffer a"
  by (simp_all add: transpose_axes_def)

lemma position_transpose:
  assumes p: "mset order = mset [0..<ndim a]"
  shows "position (transpose_axes a order) (map (\<lambda>k. idx ! k) order) = position a idx"
proof -
  let ?g = "\<lambda>j. int (idx ! j) * snd (axes a ! j)"
  have len: "length order = ndim a"
    using p by (metis length_upt mset_eq_length minus_nat.diff_0)
  have "(\<Sum>k\<leftarrow>[0..<length order].
           int (map (\<lambda>k. idx ! k) order ! k) * snd (map (\<lambda>k. axes a ! k) order ! k))
        = (\<Sum>k\<leftarrow>[0..<length order]. ?g (order ! k))"
    by (rule arg_cong[where f = sum_list], rule map_cong) simp_all
  also have "\<dots> = sum_list (map ?g (map (\<lambda>k. order ! k) [0..<length order]))"
    by (simp add: comp_def)
  also have "\<dots> = sum_list (map ?g order)"
    by (simp only: map_nth)
  also have "\<dots> = sum_list (map ?g [0..<ndim a])"
    using p by (rule sum_list_map_mset_cong)
  finally show ?thesis
    by (simp add: position_def ndim_transpose_axes transpose_axes_fields)
qed

lemma bounds_transpose:
  assumes p: "mset order = mset [0..<ndim a]"
  shows "(\<forall>k\<in>set [0..<length order].
            map (\<lambda>k. idx ! k) order ! k < fst (map (\<lambda>k. axes a ! k) order ! k))
         \<longleftrightarrow> (\<forall>j\<in>set [0..<ndim a]. idx ! j < fst (axes a ! j))"
proof -
  have s: "set order = set [0..<ndim a]" using p by (rule mset_eq_setD)
  have "(\<forall>k\<in>set [0..<length order].
            map (\<lambda>k. idx ! k) order ! k < fst (map (\<lambda>k. axes a ! k) order ! k))
        \<longleftrightarrow> (\<forall>k<length order. idx ! (order ! k) < fst (axes a ! (order ! k)))"
    by auto
  also have "\<dots> \<longleftrightarrow> (\<forall>j\<in>set order. idx ! j < fst (axes a ! j))"
    by (simp add: all_set_conv_all_nth)
  finally show ?thesis using s by simp
qed

lemma item_transpose:
  assumes p: "mset order = mset [0..<ndim a]" and l: "length idx = ndim a"
  shows "item (transpose_axes a order) (map (\<lambda>k. idx ! k) order) = item a idx"
proof -
  have len: "length order = ndim a"
    using p by (metis length_upt mset_eq_length minus_nat.diff_0)
  have pos: "position (transpose_axes a order) (map (\<lambda>k. idx ! k) order) = position a idx"
    using p by (rule position_transpose)
  have bnd: "(\<forall>k\<in>set [0..<ndim (transpose_axes a order)].
               map (\<lambda>k. idx ! k) order ! k < fst (axes (transpose_axes a order) ! k))
             \<longleftrightarrow> (\<forall>j\<in>set [0..<ndim a]. idx ! j < fst (axes a ! j))"
    using bounds_transpose[OF p, of idx] by (simp add: ndim_transpose_axes transpose_axes_fields)
  have buf: "buffer (transpose_axes a order) = buffer a"
    by (simp add: transpose_axes_fields)
  show ?thesis
    unfolding item_def pos bnd buf using len l by (simp add: ndim_transpose_axes)
qed

lemma normalize_axis_index_Inr:
  "normalize_axis_index x n = Inr s \<Longrightarrow> s < n"
  by (auto simp: normalize_axis_index_def split: if_splits)

lemma normalize_axis_index_Inr_iff:
  "normalize_axis_index x n = Inr s \<Longrightarrow>
   - int n \<le> x \<and> x < int n \<and> int s = (if x < 0 then x + int n else x)"
  by (auto simp: normalize_axis_index_def split: if_splits)

lemma normalize_axis_index_Inl:
  "normalize_axis_index x n = Inl e \<Longrightarrow>
   e = (if fits_c_int x then AxisError x n else OverflowError)"
  by (auto simp: normalize_axis_index_def split: if_splits)

lemma moveaxis_valid:
  assumes "normalize_axis_index x (ndim a) = Inr s" "normalize_axis_index y (ndim a) = Inr d"
  shows "moveaxis a x y = Inr (a\<lparr>axes := move_entry (axes a) s d\<rparr>)"
proof -
  have "s < length (axes a)" using assms(1) normalize_axis_index_Inr by (fastforce simp: ndim_def)
  then have "map (\<lambda>k. axes a ! k) (moveaxis_order (length (axes a)) s d) = move_entry (axes a) s d"
    by (rule map_nth_moveaxis_order)
  then show ?thesis using assms by (simp add: moveaxis_def transpose_axes_def ndim_def)
qed

lemma moveaxis_item:
  assumes "normalize_axis_index x (ndim a) = Inr s" "normalize_axis_index y (ndim a) = Inr d"
    and "length idx = ndim a"
  shows "item (a\<lparr>axes := move_entry (axes a) s d\<rparr>) (move_entry idx s d) = item a idx"
proof -
  have s: "s < ndim a" using assms(1) by (rule normalize_axis_index_Inr)
  let ?order = "moveaxis_order (ndim a) s d"
  have p: "mset ?order = mset [0..<ndim a]" using s by (rule mset_moveaxis_order)
  have ax: "transpose_axes a ?order = a\<lparr>axes := move_entry (axes a) s d\<rparr>"
    using s map_nth_moveaxis_order[of s "axes a" d] by (simp add: transpose_axes_def ndim_def)
  have ix: "map (\<lambda>k. idx ! k) ?order = move_entry idx s d"
    using s assms(3) map_nth_moveaxis_order[of s idx d] by simp
  from item_transpose[OF p assms(3)] ax ix show ?thesis by simp
qed

lemma move_channels_axis_noop:
  "spp \<le> 1 \<or> target = None \<Longrightarrow> move_channels_axis a spp source target = Inr a"
  by (auto simp: move_channels_axis_def split: option.splits)

lemma move_channels_axis_moveaxis:
  "1 < spp \<Longrightarrow> move_channels_axis a spp source (Some t) = moveaxis a source t"
  by (simp add: move_channels_axis_def)

lemma moveaxis_invalid_source:
  "normalize_axis_index x (ndim a) = Inl e \<Longrightarrow> moveaxis a x y = Inl e"
  by (simp add: moveaxis_def)

lemma moveaxis_invalid_destination:
  "normalize_axis_index x (ndim a) = Inr s \<Longrightarrow> normalize_axis_index y (ndim a) = Inl e \<Longrightarrow>
   moveaxis a x y = Inl e"
  by (simp add: moveaxis_def)

lemma moveaxis_relocates:
  assumes x: "normalize_axis_index x (ndim a) = Inr s"
    and y: "normalize_axis_index y (ndim a) = Inr d"
  shows "\<exists>r. moveaxis a x y = Inr r \<and> buffer r = buffer a \<and> offset r = offset a \<and>
             ndim r = ndim a \<and> axes r ! d = axes a ! s \<and>
             list_pop (axes r) d = list_pop (axes a) s \<and>
             (\<forall>idx. length idx = ndim a \<longrightarrow> item r (move_entry idx s d) = item a idx)"
proof -
  let ?r = "a\<lparr>axes := move_entry (axes a) s d\<rparr>"
  have s: "s < length (axes a)" and d: "d < length (axes a)"
    using x y normalize_axis_index_Inr by (fastforce simp: ndim_def)+
  have 1: "moveaxis a x y = Inr ?r" using x y by (rule moveaxis_valid)
  have 2: "ndim ?r = ndim a" using s by (simp add: ndim_def length_move_entry)
  have 3: "axes ?r ! d = axes a ! s" using s d by (simp add: nth_move_entry)
  have 4: "list_pop (axes ?r) d = list_pop (axes a) s" using s d by (simp add: list_pop_move_entry)
  have 5: "\<forall>idx. length idx = ndim a \<longrightarrow> item ?r (move_entry idx s d) = item a idx"
    using moveaxis_item[OF x y] by blast
  from 1 2 3 4 5 show ?thesis by simp
qed

lemma demo_axes:
  "ndim rgb_img = 3"
  "normalize_axis_index 0 3 = Inr 0"
  "normalize_axis_index (- 1) 3 = Inr 2"
  "normalize_axis_index 5 3 = Inl (AxisError 5 3)"
  "normalize_axis_index 3 3 = Inl (AxisError 3 3)"
  "normalize_axis_index 2147483648 3 = Inl OverflowError"
  by (simp_all add: ndim_def rgb_img_def normalize_axis_index_def fits_c_int_def)

lemma demo_move:
  "move_channels_axis rgb_img 3 0 (Some (- 1)) = Inr rgb_moved"
proof -
  have "moveaxis rgb_img 0 (- 1) = Inr (transpose_axes rgb_img (moveaxis_order 3 0 2))"
    by (simp add: moveaxis_def demo_axes)
  moreover have "moveaxis_order 3 0 2 = [1, 2, 0]"
    by (simp add: moveaxis_order_def list_insert_def upt_rec)
  moreover have "transpose_axes rgb_img [1, 2, 0] = rgb_moved"
    by (simp add: transpose_axes_def rgb_img_def rgb_moved_def)
  ultimately show ?thesis by (simp add: move_channels_axis_def)
qed

text \<open>
  C7, as the claim states it, has \<open>move_channels_axis\<close> relocate the axis whenever the
  image has more than one sample per pixel and a target axis is given. numpy rejects an
  axis outside the rank of the array: on a three-dimensional image the target axis \<open>3\<close>
  raises \<^verbatim>\<open>AxisError\<close> and no array is returned.
\<close>

theorem move_channels_axis_total_counterexample:
  "(1::int) < 3 \<and> move_channels_axis rgb_img 3 0 (Some 3) = Inl (AxisError 3 3)"
  by (simp add: move_channels_axis_def moveaxis_def demo_axes)

text \<open>
  C7, amended. \<open>move_channels_axis\<close> returns the array unchanged when
  \<open>samples_per_pixel \<le> 1\<close> or no target axis is given. Otherwise, when the source and the
  target axis are both within the rank of the array (a negative axis counting from the
  end), the result is the same buffer under permuted axes: the source axis stands at the
  target position, the other axes keep their relative order, and every sample is found
  at the index moved the same way. When one of the two axes is outside the rank, the call
  fails and returns no array: with \<^verbatim>\<open>AxisError\<close> for an axis that fits a C \<^verbatim>\<open>int\<close>,
  with \<^verbatim>\<open>OverflowError\<close> for one that does not; the source axis is checked first.
\<close>

theorem move_channels_axis_relocates:
  "(spp \<le> 1 \<or> target = None \<longrightarrow> move_channels_axis a spp source target = Inr a) \<and>
   (1 < spp \<longrightarrow>
      (\<forall>t s d. target = Some t \<and> normalize_axis_index source (ndim a) = Inr s \<and>
           normalize_axis_index t (ndim a) = Inr d \<longrightarrow>
         (\<exists>r. move_channels_axis a spp source target = Inr r \<and>
              buffer r = buffer a \<and> offset r = offset a \<and> ndim r = ndim a \<and>
              axes r ! d = axes a ! s \<and> list_pop (axes r) d = list_pop (axes a) s \<and>
              (\<forall>idx. length idx = ndim a \<longrightarrow> item r (move_entry idx s d) = item a idx))) \<and>
      (\<forall>t e. target = Some t \<and> normalize_axis_index source (ndim a) = Inl e \<longrightarrow>
         move_channels_axis a spp source target = Inl e) \<and>
      (\<forall>t s e. target = Some t \<and> normalize_axis_index source (ndim a) = Inr s \<and>
           normalize_axis_index t (ndim a) = Inl e \<longrightarrow>
         move_channels_axis a spp source target = Inl e)) \<and>
   (\<forall>x s. normalize_axis_index x (ndim a) = Inr s \<longrightarrow>
      - int (ndim a) \<le> x \<and> x < int (ndim a) \<and>
      int s = (if x < 0 then x + int (ndim a) else x)) \<and>
   (\<forall>x e. normalize_axis_index x (ndim a) = Inl e \<longrightarrow>
      (x < - int (ndim a) \<or> int (ndim a) \<le> x \<or> \<not> fits_c_int x) \<and>
      e = (if fits_c_int x then AxisError x (ndim a) else OverflowError))"
proof (intro conjI impI allI)
  assume "spp \<le> 1 \<or> target = None"
  then show "move_channels_axis a spp source target = Inr a" by (rule move_channels_axis_noop)
next
  fix t s d
  assume spp: "1 < spp"
    and h: "target = Some t \<and> normalize_axis_index source (ndim a) = Inr s \<and>
            normalize_axis_index t (ndim a) = Inr d"
  from h moveaxis_relocates[of source a s t d] spp
  show "\<exists>r. move_channels_axis a spp source target = Inr r \<and>
              buffer r = buffer a \<and> offset r = offset a \<and> ndim r = ndim a \<and>
              axes r ! d = axes a ! s \<and> list_pop (axes r) d = list_pop (axes a) s \<and>
              (\<forall>idx. length idx = ndim a \<longrightarrow> item r (move_entry idx s d) = item a idx)"
    by (simp add: move_channels_axis_moveaxis)
next
  fix t e
  assume "1 < spp" "target = Some t \<and> normalize_axis_index source (ndim a) = Inl e"
  then show "move_channels_axis a spp source target = Inl e"
    by (simp add: move_channels_axis_moveaxis moveaxis_invalid_source)
next
  fix t s e
  assume "1 < spp" "target = Some t \<and> normalize_axis_index source (ndim a) = Inr s \<and>
           normalize_axis_index t (ndim a) = Inl e"
  then show "move_channels_axis a spp source target = Inl e"
    by (simp add: move_channels_axis_moveaxis moveaxis_invalid_destination)
next
  fix x s
  assume "normalize_axis_index x (ndim a) = Inr s"
  then show "- int (ndim a) \<le> x" and "x < int (ndim a)"
    and "int s = (if x < 0 then x + int (ndim a) else x)"
    by (auto dest: normalize_axis_index_Inr_iff)
next
  fix x e
  assume "normalize_axis_index x (ndim a) = Inl e"
  then show "x < - int (ndim a) \<or> int (ndim a) \<le> x \<or> \<not> fits_c_int x"
    and "e = (if fits_c_int x then AxisError x (ndim a) else OverflowError)"
    by (auto simp: normalize_axis_index_def split: if_splits)
qed

theorem move_channels_axis_relocates_witness:
  "move_channels_axis rgb_img 1 0 (Some 2) = Inr rgb_img \<and>
   move_channels_axis rgb_img 3 0 None = Inr rgb_img \<and>
   normalize_axis_index 0 (ndim rgb_img) = Inr 0 \<and>
   normalize_axis_index (- 1) (ndim rgb_img) = Inr 2 \<and>
   move_channels_axis rgb_img 3 0 (Some (- 1)) = Inr rgb_moved \<and>
   axes rgb_moved ! 2 = axes rgb_img ! 0 \<and>
   list_pop (axes rgb_moved) 2 = list_pop (axes rgb_img) 0 \<and>
   item rgb_moved [1, 0, 2] = item rgb_img [2, 1, 0] \<and>
   item rgb_img [2, 1, 0] = Inr 10 \<and>
   normalize_axis_index 5 (ndim rgb_img) = Inl (AxisError 5 3) \<and>
   move_channels_axis rgb_img 3 5 (Some 0) = Inl (AxisError 5 3) \<and>
   move_channels_axis rgb_img 3 0 (Some 5) = Inl (AxisError 5 3) \<and>
   fits_c_int 5 \<and> \<not> fits_c_int 2147483648 \<and>
   normalize_axis_index 2147483648 (ndim rgb_img) = Inl OverflowError \<and>
   move_channels_axis rgb_img 3 0 (Some 2147483648) = Inl OverflowError"
proof -
  note n = demo_axes(1)
  have a: "move_channels_axis rgb_img 1 0 (Some 2) = Inr rgb_img"
    using move_channels_axis_relocates[of 1 "Some 2" rgb_img 0] by simp
  have b: "move_channels_axis rgb_img 3 0 None = Inr rgb_img"
    using move_channels_axis_relocates[of 3 None rgb_img 0] by simp
  from move_channels_axis_relocates[of 3 "Some (- 1)" rgb_img 0]
  have "\<exists>r. move_channels_axis rgb_img 3 0 (Some (- 1)) = Inr r \<and>
              buffer r = buffer rgb_img \<and> offset r = offset rgb_img \<and> ndim r = ndim rgb_img \<and>
              axes r ! 2 = axes rgb_img ! 0 \<and> list_pop (axes r) 2 = list_pop (axes rgb_img) 0 \<and>
              (\<forall>idx. length idx = ndim rgb_img \<longrightarrow> item r (move_entry idx 0 2) = item rgb_img idx)"
    by (simp add: n demo_axes)
  then have c: "axes rgb_moved ! 2 = axes rgb_img ! 0 \<and>
      list_pop (axes rgb_moved) 2 = list_pop (axes rgb_img) 0 \<and>
      item rgb_moved (move_entry [2, 1, 0] 0 2) = item rgb_img [2, 1, 0]"
    using demo_move n by auto
  have m: "move_entry [2, 1, 0] 0 2 = [1, 0, (2::nat)]"
    by (simp add: move_entry_def list_insert_def list_pop_def)
  have v: "item rgb_img [2, 1, 0] = Inr 10"
    by (simp add: item_def position_def ndim_def rgb_img_def upt_rec)
  have e1: "move_channels_axis rgb_img 3 5 (Some 0) = Inl (AxisError 5 3)"
    using move_channels_axis_relocates[of 3 "Some 0" rgb_img 5] by (simp add: n demo_axes)
  have e2: "move_channels_axis rgb_img 3 0 (Some 5) = Inl (AxisError 5 3)"
    using move_channels_axis_relocates[of 3 "Some 5" rgb_img 0] by (simp add: n demo_axes)
  have e3: "move_channels_axis rgb_img 3 0 (Some 2147483648) = Inl OverflowError"
    using move_channels_axis_relocates[of 3 "Some 2147483648" rgb_img 0] by (simp add: n demo_axes)
  have f: "fits_c_int 5 \<and> \<not> fits_c_int 2147483648"
    by (simp add: fits_c_int_def)
  from a b c m v e1 e2 e3 f demo_move show ?thesis by (simp add: n demo_axes)
qed

text \<open>
  C8, as the claim states it, speaks of every array and every pair of axes. With source
  and target both \<open>3\<close> on a three-dimensional image the call raises \<^verbatim>\<open>AxisError\<close>
  and does not return the input.
\<close>

theorem move_channels_axis_idempotent_counterexample:
  "(1::int) < 3 \<and> move_channels_axis rgb_img 3 3 (Some 3) \<noteq> Inr rgb_img"
  by (simp add: move_channels_axis_def moveaxis_def demo_axes)

text \<open>
  C8, amended. For every array, more than one sample per pixel and axes \<open>x\<close>, \<open>y\<close> within
  the rank of the array (a negative axis counting from the end), moving axis \<open>x\<close> to \<open>x\<close>
  returns the input, and moving \<open>x\<close> to \<open>y\<close> and then \<open>y\<close> to \<open>x\<close> returns the input.
\<close>

theorem move_channels_axis_round_trip:
  assumes spp: "1 < spp"
    and x: "normalize_axis_index x (ndim a) = Inr s"
    and y: "normalize_axis_index y (ndim a) = Inr d"
  shows "move_channels_axis a spp x (Some x) = Inr a \<and>
         (\<exists>r. move_channels_axis a spp x (Some y) = Inr r \<and>
              move_channels_axis r spp y (Some x) = Inr a)"
proof -
  have s: "s < length (axes a)" and d: "d < length (axes a)"
    using x y normalize_axis_index_Inr by (fastforce simp: ndim_def)+
  have same: "moveaxis a x x = Inr a"
    using moveaxis_valid[OF x x] s by (simp add: move_entry_same)
  let ?r = "a\<lparr>axes := move_entry (axes a) s d\<rparr>"
  have there: "moveaxis a x y = Inr ?r" using x y by (rule moveaxis_valid)
  have n: "ndim ?r = ndim a" using s by (simp add: ndim_def length_move_entry)
  have "moveaxis ?r y x = Inr (?r\<lparr>axes := move_entry (axes ?r) d s\<rparr>)"
    using x y n by (intro moveaxis_valid) simp_all
  also have "?r\<lparr>axes := move_entry (axes ?r) d s\<rparr> = a"
    using s d by (simp add: move_entry_back)
  finally have again: "moveaxis ?r y x = Inr a" .
  from same there again spp show ?thesis
    by (simp add: move_channels_axis_moveaxis)
qed

theorem move_channels_axis_round_trip_witness:
  "(1::int) < 3 \<and> normalize_axis_index 0 (ndim rgb_img) = Inr 0 \<and>
   normalize_axis_index (- 1) (ndim rgb_img) = Inr 2 \<and>
   move_channels_axis rgb_img 3 0 (Some 0) = Inr rgb_img \<and>
   move_channels_axis rgb_img 3 0 (Some (- 1)) = Inr rgb_moved \<and>
   move_channels_axis rgb_moved 3 (- 1) (Some 0) = Inr rgb_img"
proof -
  have x: "normalize_axis_index 0 (ndim rgb_img) = Inr 0"
    and y: "normalize_axis_index (- 1) (ndim rgb_img) = Inr 2"
    by (simp_all add: demo_axes)
  from move_channels_axis_round_trip[OF _ x y, of 3] demo_move x y
  show ?thesis by auto
qed

section \<open>Properties of reading a directory\<close>

lemma read_files_parsed:
  "map (dcmread E) files = map Inr parsed \<Longrightarrow> read_files E files = (files, Inr parsed)"
proof (induction files arbitrary: parsed)
  case Nil
  then show ?case by simp
next
  case (Cons f fs)
  then obtain ds rest where p: "parsed = ds # rest" and f: "dcmread E f = Inr ds"
    and fs: "map (dcmread E) fs = map Inr rest"
    by (cases parsed) auto
  from Cons.IH[OF fs] f p show ?case by simp
qed

lemma read_dcm_dir_parsed:
  assumes "glob E d g \<noteq> []" and "map (dcmread E) (glob E d g) = map Inr parsed"
  shows "read_dcm_dir E d g ch =
           (glob E d g, case sort_slices parsed of
                          Inl e \<Rightarrow> Inl e
                        | Inr slices \<Rightarrow> combine_sorted E ch slices)"
  using assms read_files_parsed[OF assms(2)] by (simp add: read_dcm_dir_def)

subsection \<open>The sort\<close>

lemma short_list: "length xs < 2 \<Longrightarrow> xs = [] \<or> (\<exists>x. xs = [x])"
  by (cases xs) (auto simp: length_Suc_conv)

lemma sort_key_short: "length xs < 2 \<Longrightarrow> sort_key f xs = xs"
  using short_list[of xs] by auto

lemma sort_slices_ints:
  assumes "\<forall>ds\<in>set parsed. is_int (instance_number_key ds)"
  shows "sort_slices parsed = Inr (sort_key int_key parsed)"
proof (cases "length parsed < 2")
  case True
  then show ?thesis by (simp add: sort_slices_def sort_key_short)
next
  case False
  with assms show ?thesis by (simp add: sort_slices_def list_all_iff Let_def)
qed

lemma sort_slices_none:
  assumes "2 \<le> length parsed" and "ds \<in> set parsed" and "instance_number_key ds = NoneV"
  shows "sort_slices parsed = Inl TypeError"
proof -
  have "\<not> is_int (instance_number_key ds)" "\<not> is_text (instance_number_key ds)"
    "\<not> is_bytes (instance_number_key ds)"
    using assms(3) by (simp_all add: is_int_def is_text_def is_bytes_def)
  with assms(1,2) show ?thesis
    by (auto simp: sort_slices_def list_all_iff Let_def)
qed

lemma int_key_default: "map_of ds InstanceNumber = None \<Longrightarrow> int_key ds = 0"
  by (simp add: int_key_def instance_number_key_def py_int_def)

lemma int_key_present: "map_of ds InstanceNumber = Some (IntV n) \<Longrightarrow> int_key ds = n"
  by (simp add: int_key_def instance_number_key_def py_int_def)

lemma sort_key_tagless:
  "filter (\<lambda>ds. map_of ds InstanceNumber = None) (sort_key int_key parsed)
     = filter (\<lambda>ds. map_of ds InstanceNumber = None) parsed"
proof -
  have "filter (\<lambda>ds. map_of ds InstanceNumber = None) xs
        = filter (\<lambda>ds. map_of ds InstanceNumber = None) (filter (\<lambda>ds. int_key ds = 0) xs)"
    for xs :: "dataset list"
    by (auto simp: int_key_default intro: filter_cong)
  then show ?thesis by (metis sort_key_stable)
qed

lemma sort_key_tagless_before_positive:
  assumes "i < length parsed" "j < length parsed"
    and "map_of (sort_key int_key parsed ! i) InstanceNumber = None"
    and "0 < int_key (sort_key int_key parsed ! j)"
  shows "i < j"
proof (rule ccontr)
  assume "\<not> i < j"
  then have "j \<le> i" by simp
  moreover have "sorted (map int_key (sort_key int_key parsed))" by simp
  ultimately have "map int_key (sort_key int_key parsed) ! j
          \<le> map int_key (sort_key int_key parsed) ! i"
    using assms(1) by (intro sorted_nth_mono) simp_all
  with assms show False by (simp add: int_key_default)
qed

lemma demo_series_parsed:
  "glob demo ''series'' ''*'' = [''two'', ''a'', ''neg'']"
  "map (dcmread demo) (glob demo ''series'' ''*'') = map Inr [slice_two, slice_a, slice_neg]"
  by (simp_all add: demo_def demo_glob_def demo_dcmread_def)

lemma demo_series_ints:
  "\<forall>ds\<in>set [slice_two, slice_a, slice_neg]. is_int (instance_number_key ds)"
  by (simp add: instance_number_key_def is_int_def demo_slice_defs)

text \<open>
  C2, as the claim states it, has the datasets without an instance number sort first, and
  every directory read combine its datasets in ascending order. The key of a dataset
  without the tag is \<open>0\<close>, so a dataset numbered \<open>-1\<close> sorts before it: the slice without the
  tag, enumerated first, is combined second. And a tag that is present with an empty
  value gives the key \<^verbatim>\<open>None\<close>, on which the sort of two slices raises \<^verbatim>\<open>TypeError\<close>.
\<close>

theorem tagless_first_counterexample:
  "map_of slice_a InstanceNumber = None \<and> map_of slice_neg InstanceNumber = Some (IntV (- 1)) \<and>
   sort_slices [slice_a, slice_neg] = Inr [slice_neg, slice_a] \<and>
   map_of slice_blank InstanceNumber = Some NoneV \<and>
   sort_slices [slice_blank, slice_a] = Inl TypeError"
  by (simp add: sort_slices_def instance_number_key_def is_int_def is_text_def is_bytes_def
      int_key_def py_int_def slice_a_def slice_neg_def slice_blank_def)

text \<open>
  C2, amended. In a directory read whose files all parse and whose instance numbers, where
  present, are integers, the datasets are handed to the combiner sorted in ascending order
  of the instance number, a dataset without the tag counting as \<open>0\<close>. The sort is a stable
  rearrangement of the parsed datasets: datasets of equal key, and so the datasets without
  the tag among themselves, keep the order of enumeration, and every dataset without the
  tag comes before every dataset of positive instance number.
\<close>

theorem read_dcm_dir_sorts:
  assumes "glob E d g \<noteq> []" and "map (dcmread E) (glob E d g) = map Inr parsed"
    and "\<forall>ds\<in>set parsed. is_int (instance_number_key ds)"
  shows "\<exists>slices.
           sort_slices parsed = Inr slices \<and>
           read_dcm_dir E d g ch = (glob E d g, combine_sorted E ch slices) \<and>
           sorted (map int_key slices) \<and>
           mset slices = mset parsed \<and>
           (\<forall>k. filter (\<lambda>ds. int_key ds = k) slices = filter (\<lambda>ds. int_key ds = k) parsed) \<and>
           (\<forall>ds. map_of ds InstanceNumber = None \<longrightarrow> int_key ds = 0) \<and>
           (\<forall>ds n. map_of ds InstanceNumber = Some (IntV n) \<longrightarrow> int_key ds = n) \<and>
           filter (\<lambda>ds. map_of ds InstanceNumber = None) slices
             = filter (\<lambda>ds. map_of ds InstanceNumber = None) parsed \<and>
           (\<forall>i j. i < length parsed \<and> j < length parsed \<and>
                map_of (slices ! i) InstanceNumber = None \<and> 0 < int_key (slices ! j)
                \<longrightarrow> i < j)"
proof -
  let ?s = "sort_key int_key parsed"
  have s: "sort_slices parsed = Inr ?s" using assms(3) by (rule sort_slices_ints)
  have r: "read_dcm_dir E d g ch = (glob E d g, combine_sorted E ch ?s)"
    using read_dcm_dir_parsed[OF assms(1,2)] s by simp
  have o: "\<forall>i j. i < length parsed \<and> j < length parsed \<and>
                map_of (?s ! i) InstanceNumber = None \<and> 0 < int_key (?s ! j) \<longrightarrow> i < j"
    using sort_key_tagless_before_positive[of _ parsed] by blast
  have st: "\<forall>k. filter (\<lambda>ds. int_key ds = k) ?s = filter (\<lambda>ds. int_key ds = k) parsed"
    by (simp add: sort_key_stable)
  have "sorted (map int_key ?s)" "mset ?s = mset parsed" by simp_all
  with s r o st sort_key_tagless[of parsed] int_key_default int_key_present
  show ?thesis by blast
qed

theorem read_dcm_dir_sorts_witness:
  "glob demo ''series'' ''*'' \<noteq> [] \<and>
   map (dcmread demo) (glob demo ''series'' ''*'') = map Inr [slice_two, slice_a, slice_neg] \<and>
   is_int (instance_number_key slice_two) \<and> is_int (instance_number_key slice_a) \<and>
   is_int (instance_number_key slice_neg) \<and>
   sort_slices [slice_two, slice_a, slice_neg] = Inr [slice_neg, slice_a, slice_two] \<and>
   read_dcm_dir demo ''series'' ''*'' None
     = ([''two'', ''a'', ''neg''], combine_sorted demo None [slice_neg, slice_a, slice_two]) \<and>
   sorted (map int_key [slice_neg, slice_a, slice_two]) \<and>
   map_of slice_a InstanceNumber = None \<and> int_key slice_a = 0 \<and>
   map_of slice_two InstanceNumber = Some (IntV 2) \<and> int_key slice_two = 2 \<and>
   map_of ([slice_neg, slice_a, slice_two] ! 1) InstanceNumber = None \<and>
   0 < int_key ([slice_neg, slice_a, slice_two] ! 2) \<and> (1::nat) < 2"
proof -
  have ne: "glob demo ''series'' ''*'' \<noteq> []" by (simp add: demo_series_parsed)
  have a: "map_of slice_a InstanceNumber = None" by (simp add: slice_a_def)
  have t: "map_of slice_two InstanceNumber = Some (IntV 2)" by (simp add: slice_two_def)
  from read_dcm_dir_sorts[OF ne demo_series_parsed(2) demo_series_ints, of None]
  obtain slices where sl: "sort_slices [slice_two, slice_a, slice_neg] = Inr slices"
    and r: "read_dcm_dir demo ''series'' ''*'' None
              = (glob demo ''series'' ''*'', combine_sorted demo None slices)"
    and s: "sorted (map int_key slices)"
    and d: "\<forall>ds. map_of ds InstanceNumber = None \<longrightarrow> int_key ds = 0"
    and p: "\<forall>ds n. map_of ds InstanceNumber = Some (IntV n) \<longrightarrow> int_key ds = n"
    by blast
  from sl have eq: "slices = [slice_neg, slice_a, slice_two]"
    by (simp add: demo_sort_series)
  from d a have ka: "int_key slice_a = 0" by blast
  from p t have kt: "int_key slice_two = 2" by blast
  from ne r s a t ka kt eq demo_series_parsed demo_sort_series demo_series_ints
  show ?thesis by simp
qed

end
